theory Spec2Isabelle
  imports Main "HOL-Library.Word" "HOL-Library.AList"
begin

section \<open>Data model (mailer.go)\<close>

text \<open>
  Go's \<^verbatim>\<open>int64\<close> is a 64-bit word read as a signed number; \<^verbatim>\<open>byte\<close> is an 8-bit word;
  \<^verbatim>\<open>time.Duration\<close> is an \<^verbatim>\<open>int64\<close> count of nanoseconds. Go strings are byte strings,
  here \<^typ>\<open>string\<close>. Slice lengths are natural numbers: three slices of addresses cannot
  hold \<open>2 ^ 63\<close> elements together, so \<^verbatim>\<open>len(a)+len(b)+len(c)\<close> never wraps.
\<close>

type_synonym byte = "8 word"
type_synonym int64 = "64 word"

text \<open>
  An \<^verbatim>\<open>error\<close> value is either made by \<^verbatim>\<open>errors.New\<close> in this package, or comes from
  outside it (the operating system, the HTTP transport, a reader, the Customer.io client).
\<close>

datatype error = errors_New string | external_error string

text \<open>A call either returns (\<^verbatim>\<open>nil\<close> or an error) or panics with a message.\<close>

datatype outcome = Returned "error option" | Panic string

record address =
  Name :: string
  Email :: string
  Type :: string

record attachment =
  Content :: string
  Type :: string
  FileName :: string
  ContentID :: string
  Disposition :: string
  Size :: int64

record Configs =
  ServerToken :: string
  AccountToken :: string
  APIKey :: string
  PrivateKey :: string
  PublicKey :: string
  BaseURL :: string
  Domain :: string
  Username :: string
  Password :: string
  RequestTimeout :: int64

record client =
  timeOut :: int64

text \<open>A zero value of each struct, as Go's composite literals leave unset fields.\<close>

definition address_zero :: address where
  "address_zero = \<lparr>address.Name = '''', address.Email = '''', address.Type = ''''\<rparr>"

definition attachment_zero :: attachment where
  "attachment_zero = \<lparr>attachment.Content = '''', attachment.Type = '''',
     attachment.FileName = '''', attachment.ContentID = '''',
     attachment.Disposition = '''', attachment.Size = 0\<rparr>"

text \<open>\<^verbatim>\<open>fmt.Sprintf("%s <%s>", a.Name, a.Email)\<close>\<close>

definition format :: "address \<Rightarrow> string" where
  "format a = address.Name a @ '' <'' @ address.Email a @ ''>''"

text \<open>
  \<^verbatim>\<open>strings.Join(list, ",")\<close>
\<close>

fun strings_Join :: "string list \<Rightarrow> string \<Rightarrow> string" where
  "strings_Join [] sep = ''''"
| "strings_Join [x] sep = x"
| "strings_Join (x # y # ys) sep = x @ sep @ strings_Join (y # ys) sep"

section \<open>The adapters' message state\<close>

text \<open>
  A reader is consumed once, by \<^verbatim>\<open>io.Copy\<close> into a buffer: it is modelled by what that
  copy yields, the bytes or the read error.
\<close>

type_synonym reader = "error + byte list"

record readerInfo =
  size' :: int64
  r' :: reader

text \<open>
  \<^verbatim>\<open>map[string]readerInfo\<close> is an association list, searched by key. \<^verbatim>\<open>nil\<close> and the
  empty map are both \<open>[]\<close>. The setters of this package only ever store a fresh map with
  one entry, so the order in which Go ranges over it is determined.
\<close>

type_synonym readerMap = "(string \<times> readerInfo) list"

record mailgun =
  c' :: client
  configs :: Configs
  from' :: address
  toList :: "address list"
  ccList :: "address list"
  bccList :: "address list"
  replyTo :: address
  subject :: string
  bodyHTML :: string
  bodyText :: string
  attachmentFiles :: "string list"
  attachmentInlineFiles :: "string list"

record sendgrid =
  c' :: client
  configs :: Configs
  from' :: address
  toList :: "address list"
  ccList :: "address list"
  bccList :: "address list"
  replyTo :: address
  subject :: string
  bodyHTML :: string
  bodyText :: string
  attachmentFiles :: "string list"
  attachmentInlineFiles :: "string list"
  attachmentReaders :: readerMap
  attachmentInlineReaders :: readerMap
  attachments :: "attachment list"

record mailjetAddress =
  Name :: string
  Email :: string

record mailjet =
  c' :: client
  configs :: Configs
  from' :: mailjetAddress
  toList :: "mailjetAddress list"
  ccList :: "mailjetAddress list"
  bccList :: "mailjetAddress list"
  replyTo :: mailjetAddress
  subject :: string
  bodyHTML :: string
  bodyText :: string
  attachmentFiles :: "string list"
  attachmentInlineFiles :: "string list"

record postmark =
  c' :: client
  configs :: Configs
  from' :: address
  toList :: "address list"
  ccList :: "address list"
  bccList :: "address list"
  replyTo :: address
  subject :: string
  bodyHTML :: string
  bodyText :: string
  attachmentFiles :: "string list"
  attachmentInlineFiles :: "string list"
  attachments :: "attachment list"

record customerio =
  c' :: client
  configs :: Configs
  from' :: address
  toList :: "address list"
  ccList :: "address list"
  bccList :: "address list"
  replyTo :: address
  subject :: string
  bodyHTML :: string
  bodyText :: string
  attachmentFiles :: "string list"
  attachmentInlineFiles :: "string list"
  attachmentReaders :: readerMap
  attachmentInlineReaders :: readerMap
  attachments :: "attachment list"

text \<open>The interface \<^verbatim>\<open>Mailer\<close>: one of the five adapters.\<close>

datatype Mailer =
  Mailer_mailgun mailgun
| Mailer_sendgrid sendgrid
| Mailer_postmark postmark
| Mailer_mailjet mailjet
| Mailer_customerio customerio

section \<open>Provider limits\<close>

definition mailgunMaxFileSize :: int64 where "mailgunMaxFileSize = 25 * 1000000"
definition mailgunMaxReceipents :: nat where "mailgunMaxReceipents = 1000"
definition sendgridMaxFileSize :: int64 where "sendgridMaxFileSize = 30 * 1000000"
definition sendgridMaxReceipents :: nat where "sendgridMaxReceipents = 1000"
definition mailjetMaxFileSize :: int64 where "mailjetMaxFileSize = 15 * 1000000"
definition mailjetMaxReceipents :: nat where "mailjetMaxReceipents = 50"
definition postmarkMaxFileSize :: int64 where "postmarkMaxFileSize = 5 * 1000000"
definition postmarkMaxReceipents :: nat where "postmarkMaxReceipents = 50"
definition customerioMaxFileSize :: int64 where "customerioMaxFileSize = 30 * 1000000"
definition customerioMaxReceipents :: nat where "customerioMaxReceipents = 1000"

section \<open>Validation: verifyParams\<close>

text \<open>
  Each \<^verbatim>\<open>verifyParams\<close> returns nothing and panics on the first rule that fails: the model
  returns the panic message, or \<open>None\<close> when every rule holds. The checks are in the
  source's order.
\<close>

definition mailgun_verifyParams :: "mailgun \<Rightarrow> string option" where
  "mailgun_verifyParams m =
     (if address.Email (mailgun.from' m) = '''' then
        Some ''gomailer: you must provide from''
      else if length (mailgun.toList m) \<le> 0 then
        Some ''gomailer: you must provide at least one receipent''
      else if length (mailgun.toList m) + length (mailgun.ccList m) + length (mailgun.bccList m)
                > mailgunMaxReceipents then
        Some ''mailer: total number of receipents including to/cc/bcc can not be greater than 1000 for mailgun''
      else if mailgun.bodyText m = '''' \<and> mailgun.bodyHTML m = '''' then
        Some ''gomailer: you must provide a Text or HTML body''
      else None)"

definition sendgrid_verifyParams :: "sendgrid \<Rightarrow> string option" where
  "sendgrid_verifyParams s =
     (if address.Email (sendgrid.from' s) = '''' then
        Some ''gomailer: you must provide from''
      else if length (sendgrid.toList s) \<le> 0 then
        Some ''gomailer: you must provide at least one receipent''
      else if length (sendgrid.toList s) + length (sendgrid.ccList s) + length (sendgrid.bccList s)
                > sendgridMaxReceipents then
        Some ''mailer: total number of receipents including to/cc/bcc can not be greater than 1000 for sendgrid''
      else if sendgrid.bodyText s = '''' \<and> sendgrid.bodyHTML s = '''' then
        Some ''gomailer: you must provide a Text or HTML body''
      else None)"

definition mailjet_verifyParams :: "mailjet \<Rightarrow> string option" where
  "mailjet_verifyParams m =
     (if Configs.PrivateKey (mailjet.configs m) = '''' \<or> Configs.PublicKey (mailjet.configs m) = '''' then
        Some ''gomailer: for mailjetapp you must provide PrivateKey and PublicKey in config''
      else if mailjetAddress.Email (mailjet.from' m) = '''' then
        Some ''gomailer: you must provide from''
      else if length (mailjet.toList m) \<le> 0 then
        Some ''gomailer: you must provide at least one receipent''
      else if length (mailjet.toList m) + length (mailjet.ccList m) + length (mailjet.bccList m)
                > mailjetMaxReceipents then
        Some ''mailer: total number of receipents including to/cc/bcc can not be greater than 50 for mailjet''
      else if mailjet.bodyText m = '''' \<and> mailjet.bodyHTML m = '''' then
        Some ''gomailer: you must provide a Text or HTML body''
      else None)"

definition postmark_verifyParams :: "postmark \<Rightarrow> string option" where
  "postmark_verifyParams p =
     (if Configs.AccountToken (postmark.configs p) = '''' \<and> Configs.ServerToken (postmark.configs p) = '''' then
        Some ''gomailer: for postmarkapp you must provide AccountToken or ServerToken in config''
      else if address.Email (postmark.from' p) = '''' then
        Some ''gomailer: you must provide from''
      else if length (postmark.toList p) \<le> 0 then
        Some ''gomailer: you must provide at least one receipent''
      else if length (postmark.toList p) + length (postmark.ccList p) + length (postmark.bccList p)
                > postmarkMaxReceipents then
        Some ''mailer: total number of receipents including to/cc/bcc can not be greater than 50 for postmark''
      else if postmark.bodyText p = '''' \<and> postmark.bodyHTML p = '''' then
        Some ''gomailer: you must provide a Text or HTML body''
      else None)"

definition customerio_verifyParams :: "customerio \<Rightarrow> string option" where
  "customerio_verifyParams c =
     (if address.Email (customerio.from' c) = '''' then
        Some ''gomailer: you must provide from''
      else if length (customerio.toList c) \<le> 0 then
        Some ''gomailer: you must provide at least one receipent''
      else if length (customerio.toList c) + length (customerio.ccList c) + length (customerio.bccList c)
                > customerioMaxReceipents then
        Some ''mailer: total number of receipents including to/cc/bcc can not be greater than 1000 for customerio''
      else if customerio.bodyText c = '''' \<and> customerio.bodyHTML c = '''' then
        Some ''gomailer: you must provide a Text or HTML body''
      else None)"

text \<open>The \<^verbatim>\<open>verifyParams\<close> of the adapter behind an interface value.\<close>

fun verifyParams :: "Mailer \<Rightarrow> string option" where
  "verifyParams (Mailer_mailgun m) = mailgun_verifyParams m"
| "verifyParams (Mailer_sendgrid s) = sendgrid_verifyParams s"
| "verifyParams (Mailer_postmark p) = postmark_verifyParams p"
| "verifyParams (Mailer_mailjet m) = mailjet_verifyParams m"
| "verifyParams (Mailer_customerio c) = customerio_verifyParams c"

section \<open>The world outside the package\<close>

text \<open>
  What the operating system, the Go standard library's tables, the network and the
  Customer.io client answer is a parameter of every operation that asks them.
  The payload of a request is kept structured (the fields and files of a multipart
  form, the keys of a JSON object) and not serialised: \<^verbatim>\<open>toJSON\<close> cannot fail on the
  values built here, and writing to a \<^verbatim>\<open>bytes.Buffer\<close> cannot fail either.
\<close>

record sendgridContent =
  Type :: string
  Value :: string

record personalization =
  to :: "address list"
  cc :: "address list"
  bcc :: "address list"
  subject :: string

text \<open>A key that the source sets only under a condition is an optional field.\<close>

record sendgrid_params =
  from' :: address
  personalizations :: "personalization list"
  reply_to :: "address option"
  content :: "sendgridContent list"
  attachments :: "attachment list option"

record postmarkAttachment =
  Name :: string
  Content :: string
  ContentType :: string
  ContentID :: string

record postmark_params =
  From :: string
  Subject :: string
  To :: "string option"
  Cc :: "string option"
  Bcc :: "string option"
  ReplyTo :: "address option"
  TextBody :: "string option"
  HtmlBody :: "string option"
  Attachments :: "postmarkAttachment list option"

record mailjetAttachment =
  Name :: string
  Content :: string
  ContentType :: string
  ContentID :: string

record mailjet_params =
  From :: mailjetAddress
  Subject :: string
  To :: "mailjetAddress list option"
  Cc :: "mailjetAddress list option"
  Bcc :: "mailjetAddress list option"
  ReplyTo :: "mailjetAddress option"
  TextPart :: "string option"
  HTMLPart :: "string option"
  Attachments :: "mailjetAttachment list option"
  InlinedAttachments :: "mailjetAttachment list option"

text \<open>A file part of a multipart form: field name, file name, content.\<close>

type_synonym form_file = "string \<times> string \<times> byte list"

datatype payload =
  multipart_form "form_file list" "(string \<times> string) list"
| sendgrid_json sendgrid_params
| postmark_json postmark_params
| mailjet_json "mailjet_params list"

text \<open>
  \<^verbatim>\<open>SetBasicAuth(user, password)\<close> is kept as the pair it was called with.
\<close>

record http_request =
  Method :: string
  URL :: string
  Header :: "(string \<times> string) list"
  basicAuth :: "(string \<times> string) option"
  body :: payload

text \<open>
  A response: its status code, and what \<^verbatim>\<open>ioutil.ReadAll(resp.Body)\<close> returns, the bytes
  read and the read error if there is one.
\<close>

record http_response =
  StatusCode :: int
  Body :: string
  Body_err :: "error option"

record http_client =
  Timeout :: int64
  Dial_Timeout :: int64
  TLSHandshakeTimeout :: int64

text \<open>The fields of \<^verbatim>\<open>cio.SendEmailRequest\<close> that \<^verbatim>\<open>Send\<close> sets; maps are association lists.\<close>

record SendEmailRequest =
  From :: string
  To :: string
  Subject :: string
  Identifiers :: "(string \<times> string) list"
  BCC :: string
  ReplyTo :: string
  PlaintextBody :: string
  Body :: string
  Attachments :: "(string \<times> string) list"

record world =
  os_Stat :: "string \<Rightarrow> error + int64"
  ioutil_ReadFile :: "string \<Rightarrow> error + byte list"
  os_Open_Copy_Close :: "string \<Rightarrow> error + byte list"
  mimeTypes :: "string \<Rightarrow> string option"
  multipart_boundary :: string
  range_inline_first :: bool
  http_NewRequest :: "string \<Rightarrow> error option"
  http_Do :: "http_client \<Rightarrow> http_request \<Rightarrow> error + http_response"
  uuid_New :: string
  cio_SendEmail :: "string \<Rightarrow> SendEmailRequest \<Rightarrow> error option"

text \<open>
  \<^item> \<open>os_Stat\<close>: \<^verbatim>\<open>os.Stat(f)\<close>, the error or \<^verbatim>\<open>fi.Size()\<close>;
  \<^item> \<open>ioutil_ReadFile\<close>: \<^verbatim>\<open>ioutil.ReadFile(path)\<close>;
  \<^item> \<open>os_Open_Copy_Close\<close>: \<^verbatim>\<open>os.Open\<close>, \<^verbatim>\<open>io.Copy\<close> into the form part and \<^verbatim>\<open>file.Close\<close>,
    the first error of the three or the bytes copied;
  \<^item> \<open>mimeTypes\<close>: the table behind \<^verbatim>\<open>mime.TypeByExtension\<close>;
  \<^item> \<open>multipart_boundary\<close>: the random boundary of \<^verbatim>\<open>multipart.NewWriter\<close>;
  \<^item> \<open>range_inline_first\<close>: whether ranging over Mailgun's two-key map of files visits
    \<^verbatim>\<open>"inline"\<close> before \<^verbatim>\<open>"attachment"\<close> (Go leaves the order open);
  \<^item> \<open>http_NewRequest\<close>: the error of \<^verbatim>\<open>http.NewRequest("POST", url, body)\<close>, if the URL
    does not parse;
  \<^item> \<open>http_Do\<close>: \<^verbatim>\<open>client.Do(req)\<close>;
  \<^item> \<open>uuid_New\<close>: \<^verbatim>\<open>uuid.New().String()\<close>;
  \<^item> \<open>cio_SendEmail\<close>: the error of \<^verbatim>\<open>cio.NewAPIClient(key, ...).SendEmail(ctx, &req)\<close>.
\<close>

text \<open>The calls a \<^verbatim>\<open>Send\<close> makes to the outside, in the order it makes them.\<close>

datatype event =
  os_Stat_call string
| ReadFile_call string
| os_Open_call string
| io_Copy_call string
| http_Do_call http_client http_request
| cio_SendEmail_call string SendEmailRequest

fun is_network :: "event \<Rightarrow> bool" where
  "is_network (http_Do_call cl req) = True"
| "is_network (cio_SendEmail_call k req) = True"
| "is_network _ = False"

section \<open>Standard-library functions used by the package\<close>

text \<open>
  \<^verbatim>\<open>filepath.Base\<close> and \<^verbatim>\<open>filepath.Ext\<close> on a system whose path separator is \<^verbatim>\<open>/\<close>.
  \<^verbatim>\<open>Base\<close>: \<^verbatim>\<open>"."\<close> for the empty path; trailing separators are stripped; the last
  element is what follows the last separator; a path of separators only gives \<^verbatim>\<open>"/"\<close>.
  \<^verbatim>\<open>Ext\<close>: the suffix of the last element from its last dot on, or empty.
\<close>

definition filepath_Base :: "string \<Rightarrow> string" where
  "filepath_Base path =
     (if path = '''' then ''.''
      else
        let stripped = rev (dropWhile (\<lambda>ch. ch = CHR ''/'') (rev path));
            elem = rev (takeWhile (\<lambda>ch. ch \<noteq> CHR ''/'') (rev stripped))
        in if elem = '''' then ''/'' else elem)"

definition filepath_Ext :: "string \<Rightarrow> string" where
  "filepath_Ext path =
     (let elem = takeWhile (\<lambda>ch. ch \<noteq> CHR ''/'') (rev path)
      in if CHR ''.'' \<in> set elem
         then CHR ''.'' # rev (takeWhile (\<lambda>ch. ch \<noteq> CHR ''.'') elem)
         else '''')"

text \<open>\<^verbatim>\<open>mime.TypeByExtension\<close>: the type of the table, or the empty string.\<close>

definition mime_TypeByExtension :: "world \<Rightarrow> string \<Rightarrow> string" where
  "mime_TypeByExtension w ext = (case mimeTypes w ext of Some t \<Rightarrow> t | None \<Rightarrow> '''')"

text \<open>
  \<^verbatim>\<open>base64.StdEncoding\<close> (RFC 4648, with padding): three bytes are a 24-bit number
  written as four 6-bit digits of the alphabet; a last group of one or two bytes is
  padded with \<^verbatim>\<open>=\<close>.
\<close>

definition encodeStd :: string where
  "encodeStd = ''ABCDEFGHIJKLMNOPQRSTUVWXYZabcdefghijklmnopqrstuvwxyz0123456789+/''"

definition encode_digit :: "nat \<Rightarrow> char" where
  "encode_digit i = encodeStd ! (i mod 64)"

fun EncodeToString :: "byte list \<Rightarrow> string" where
  "EncodeToString [] = ''''"
| "EncodeToString [b0] =
     (let val = unat b0 * 65536
      in [encode_digit (val div 262144), encode_digit (val div 4096), CHR ''='', CHR ''=''])"
| "EncodeToString [b0, b1] =
     (let val = unat b0 * 65536 + unat b1 * 256
      in [encode_digit (val div 262144), encode_digit (val div 4096),
          encode_digit (val div 64), CHR ''=''])"
| "EncodeToString (b0 # b1 # b2 # src) =
     (let val = unat b0 * 65536 + unat b1 * 256 + unat b2
      in [encode_digit (val div 262144), encode_digit (val div 4096),
          encode_digit (val div 64), encode_digit val] @ EncodeToString src)"

text \<open>The decoder of the same encoding: \<open>None\<close> on input that is not well-formed.\<close>

definition decode_digit :: "char \<Rightarrow> nat option" where
  "decode_digit ch =
     (if ch \<in> set encodeStd
      then Some (length (takeWhile (\<lambda>x. x \<noteq> ch) encodeStd)) else None)"

fun DecodeString :: "string \<Rightarrow> byte list option" where
  "DecodeString [] = Some []"
| "DecodeString (c0 # c1 # c2 # c3 # s) =
     (case (decode_digit c0, decode_digit c1) of
        (Some d0, Some d1) \<Rightarrow>
          if c2 = CHR ''='' \<and> c3 = CHR ''='' \<and> s = [] then
            Some [of_nat ((d0 * 262144 + d1 * 4096) div 65536)]
          else if c3 = CHR ''='' \<and> s = [] then
            (case decode_digit c2 of
               Some d2 \<Rightarrow>
                 (let val = d0 * 262144 + d1 * 4096 + d2 * 64
                  in Some [of_nat (val div 65536), of_nat (val div 256)])
             | None \<Rightarrow> None)
          else
            (case (decode_digit c2, decode_digit c3, DecodeString s) of
               (Some d2, Some d3, Some bs) \<Rightarrow>
                 (let val = d0 * 262144 + d1 * 4096 + d2 * 64 + d3
                  in Some (of_nat (val div 65536) # of_nat (val div 256) # of_nat val # bs))
             | _ \<Rightarrow> None)
      | _ \<Rightarrow> None)"
| "DecodeString _ = None"

text \<open>The decimal digits of \<^verbatim>\<open>%d\<close> for an index, which is never negative.\<close>

fun itoa :: "nat \<Rightarrow> string" where
  "itoa n =
     (if n < 10 then [char_of (48 + n)]
      else itoa (n div 10) @ [char_of (48 + n mod 10)])"

section \<open>Attachment resolution (mailer.go)\<close>

definition ReadFromFile :: "world \<Rightarrow> string \<Rightarrow> attachment \<Rightarrow> error + attachment" where
  "ReadFromFile w path a =
     (case ioutil_ReadFile w path of
        Inl err \<Rightarrow> Inl err
      | Inr b \<Rightarrow>
          (let sEnc = EncodeToString b;
               ext = filepath_Ext path;
               mType = mime_TypeByExtension w ext;
               fileName = filepath_Base path
           in Inr (a\<lparr>attachment.Type := mType, attachment.Content := sEnc,
                     attachment.FileName := fileName, attachment.ContentID := fileName\<rparr>)))"

definition ReadFromReader :: "world \<Rightarrow> string \<Rightarrow> readerInfo \<Rightarrow> attachment \<Rightarrow> error + attachment" where
  "ReadFromReader w f sri a =
     (case r' sri of
        Inl err \<Rightarrow> Inl err
      | Inr b \<Rightarrow>
          (let a1 = a\<lparr>attachment.Size := of_nat (length b)\<rparr>;
               sEnc = EncodeToString b;
               ext = filepath_Ext f;
               mType = mime_TypeByExtension w ext;
               fileName = filepath_Base f
           in Inr (a1\<lparr>attachment.Type := mType, attachment.Content := sEnc,
                      attachment.FileName := fileName, attachment.ContentID := fileName\<rparr>)))"

section \<open>The loops of Send\<close>

text \<open>
  A step that may fail returns its value or its error, together with the calls it made.
  \<open>andThen\<close> is the source's \<^verbatim>\<open>if err != nil { return err }\<close>: on an error \<^verbatim>\<open>Send\<close>
  returns it, otherwise the rest of the function runs and its calls follow.

  \<^verbatim>\<open>Send\<close> also writes to the adapter it is called on: it appends the attachments it
  builds to the adapter's \<^verbatim>\<open>attachments\<close>, and \<^verbatim>\<open>getDefaultClient\<close> stores the default timeout
  in a client whose timeout is zero. The model starts from the adapter's \<^verbatim>\<open>attachments\<close> as
  they are and gives the outcome of \<^verbatim>\<open>Send\<close> and the calls it made; the adapter after the
  call is not part of the result.
\<close>

definition andThen :: "(error + 'a) \<times> event list \<Rightarrow> ('a \<Rightarrow> outcome \<times> event list) \<Rightarrow> outcome \<times> event list" where
  "andThen step rest =
     (case step of
        (Inl err, tr) \<Rightarrow> (Returned (Some err), tr)
      | (Inr v, tr) \<Rightarrow> (case rest v of (out, tr') \<Rightarrow> (out, tr @ tr')))"

text \<open>
  \<^verbatim>\<open>for _, f := range files { fi, e := os.Stat(f); if e != nil { return e };
  totalSize += fi.Size() }\<close>: the addition is that of \<^verbatim>\<open>int64\<close>.
\<close>

fun totalFileSize :: "world \<Rightarrow> string list \<Rightarrow> int64 \<Rightarrow> (error + int64) \<times> event list" where
  "totalFileSize w [] totalSize = (Inr totalSize, [])"
| "totalFileSize w (f # fs) totalSize =
     (case os_Stat w f of
        Inl e \<Rightarrow> (Inl e, [os_Stat_call f])
      | Inr fi_Size \<Rightarrow>
          (case totalFileSize w fs (totalSize + fi_Size) of
             (res, tr) \<Rightarrow> (res, os_Stat_call f # tr)))"

text \<open>
  \<^verbatim>\<open>for _, f := range files { a := attachment{}; err := a.ReadFromFile(f);
  if err != nil { return err }; ...; append(..., fin a) }\<close>
\<close>

fun readFiles :: "world \<Rightarrow> (attachment \<Rightarrow> 'a) \<Rightarrow> string list \<Rightarrow> (error + 'a list) \<times> event list" where
  "readFiles w fin [] = (Inr [], [])"
| "readFiles w fin (f # fs) =
     (case ReadFromFile w f attachment_zero of
        Inl err \<Rightarrow> (Inl err, [ReadFile_call f])
      | Inr a \<Rightarrow>
          (case readFiles w fin fs of
             (Inl err, tr) \<Rightarrow> (Inl err, ReadFile_call f # tr)
           | (Inr as, tr) \<Rightarrow> (Inr (fin a # as), ReadFile_call f # tr)))"

text \<open>The same loop over a map of readers, with \<^verbatim>\<open>a.ReadFromReader(f, r)\<close>.\<close>

fun readReaders :: "world \<Rightarrow> (attachment \<Rightarrow> 'a) \<Rightarrow> readerMap \<Rightarrow> (error + 'a list) \<times> event list" where
  "readReaders w fin [] = (Inr [], [])"
| "readReaders w fin ((f, ri) # rs) =
     (case ReadFromReader w f ri attachment_zero of
        Inl err \<Rightarrow> (Inl err, [io_Copy_call f])
      | Inr a \<Rightarrow>
          (case readReaders w fin rs of
             (Inl err, tr) \<Rightarrow> (Inl err, io_Copy_call f # tr)
           | (Inr as, tr) \<Rightarrow> (Inr (fin a # as), io_Copy_call f # tr)))"

definition as_attachment :: "attachment \<Rightarrow> attachment" where
  "as_attachment a = a\<lparr>attachment.Disposition := ''attachment''\<rparr>"

definition as_inline :: "attachment \<Rightarrow> attachment" where
  "as_inline a = a\<lparr>attachment.Disposition := ''inline''\<rparr>"

section \<open>The HTTP client (client.go)\<close>

definition defaultTimeout :: int64 where "defaultTimeout = 60 * 1000000000"

text \<open>
  \<^verbatim>\<open>getDefaultClient\<close>: a zero timeout becomes the default; the TLS handshake timeout is
  \<^verbatim>\<open>c.timeOut * time.Second\<close>, a product of \<^verbatim>\<open>int64\<close>.
\<close>

definition getDefaultClient :: "client \<Rightarrow> http_client" where
  "getDefaultClient cl =
     (let t = (if timeOut cl = 0 then defaultTimeout else timeOut cl)
      in \<lparr>Timeout = t, Dial_Timeout = t, TLSHandshakeTimeout = t * 1000000000\<rparr>)"

section \<open>Mailgun (mailgun.go)\<close>

definition mailgunBaseURL :: string where "mailgunBaseURL = ''https://api.mailgun.net/v3''"

definition mailgun_lists :: "address list \<Rightarrow> string" where
  "mailgun_lists a = (if length a \<le> 0 then '''' else strings_Join (map format a) '','')"

text \<open>\<^verbatim>\<open>messageURL\<close> panics without a domain: \<open>Inl\<close> is the panic message.\<close>

definition mailgun_messageURL :: "mailgun \<Rightarrow> string + string" where
  "mailgun_messageURL m =
     (let url = (if Configs.BaseURL (mailgun.configs m) \<noteq> ''''
                 then Configs.BaseURL (mailgun.configs m) else mailgunBaseURL)
      in if Configs.Domain (mailgun.configs m) = ''''
         then Inl ''gomailer: you must provide domain name in Config''
         else Inr (url @ ''/'' @ Configs.Domain (mailgun.configs m) @ ''/messages''))"

text \<open>
  The inner loop of \<^verbatim>\<open>processMailgunRequest\<close> over the paths of one form field: open the
  file, create the part \<^verbatim>\<open>name[index]\<close> under the file's base name, copy, close.
\<close>

fun mailgun_formFiles :: "world \<Rightarrow> string \<Rightarrow> nat \<Rightarrow> string list \<Rightarrow> (error + form_file list) \<times> event list" where
  "mailgun_formFiles w fileFieldName index [] = (Inr [], [])"
| "mailgun_formFiles w fileFieldName index (fPath # fPaths) =
     (case os_Open_Copy_Close w fPath of
        Inl err \<Rightarrow> (Inl err, [os_Open_call fPath])
      | Inr bs \<Rightarrow>
          (case mailgun_formFiles w fileFieldName (Suc index) fPaths of
             (Inl err, tr) \<Rightarrow> (Inl err, os_Open_call fPath # tr)
           | (Inr parts, tr) \<Rightarrow>
               (Inr ((fileFieldName @ ''['' @ itoa index @ '']'', filepath_Base fPath, bs) # parts),
                os_Open_call fPath # tr)))"

text \<open>The outer loop, over the entries of the map in the order Go visits them.\<close>

fun mailgun_allFormFiles :: "world \<Rightarrow> (string \<times> string list) list \<Rightarrow> (error + form_file list) \<times> event list" where
  "mailgun_allFormFiles w [] = (Inr [], [])"
| "mailgun_allFormFiles w ((fileFieldName, fPaths) # files) =
     (case mailgun_formFiles w fileFieldName 0 fPaths of
        (Inl err, tr) \<Rightarrow> (Inl err, tr)
      | (Inr parts, tr) \<Rightarrow>
          (case mailgun_allFormFiles w files of
             (Inl err, tr') \<Rightarrow> (Inl err, tr @ tr')
           | (Inr parts', tr') \<Rightarrow> (Inr (parts @ parts'), tr @ tr')))"

definition range_files :: "world \<Rightarrow> (string \<times> string list) list \<Rightarrow> (string \<times> string list) list" where
  "range_files w files = (if range_inline_first w then rev files else files)"

text \<open>
  \<^verbatim>\<open>processMailgunRequest\<close>. The error of \<^verbatim>\<open>http.NewRequest\<close> is not looked at: when there
  is one the request is \<^verbatim>\<open>nil\<close> and setting its header panics. The fields of the form are
  kept in the order \<^verbatim>\<open>Send\<close> stored them.
\<close>

definition processMailgunRequest :: "world \<Rightarrow> mailgun \<Rightarrow> (string \<times> string) list \<Rightarrow> (string \<times> string list) list \<Rightarrow> outcome \<times> event list" where
  "processMailgunRequest w m params files =
     andThen (mailgun_allFormFiles w (range_files w files)) (\<lambda>parts.
       case mailgun_messageURL m of
         Inl msg \<Rightarrow> (Panic msg, [])
       | Inr u \<Rightarrow>
           (case http_NewRequest w u of
              Some err \<Rightarrow> (Panic ''runtime error: invalid memory address or nil pointer dereference'', [])
            | None \<Rightarrow>
                (let req = \<lparr>Method = ''POST'', URL = u,
                            Header = [(''Content-Type'', ''multipart/form-data; boundary='' @ multipart_boundary w)],
                            basicAuth = Some (''api'', Configs.APIKey (mailgun.configs m)),
                            body = multipart_form parts params\<rparr>;
                     cl = getDefaultClient (mailgun.c' m)
                 in case http_Do w cl req of
                      Inl err \<Rightarrow> (Returned (Some err), [http_Do_call cl req])
                    | Inr resp \<Rightarrow>
                        (if Body_err resp \<noteq> None then Returned (Body_err resp)
                         else if StatusCode resp \<noteq> 200 then Returned (Some (errors_New (http_response.Body resp)))
                         else Returned None,
                         [http_Do_call cl req]))))"

text \<open>\<^verbatim>\<open>Send\<close> from \<^verbatim>\<open>// build params\<close> on: the request construction and the dispatch.\<close>

definition mailgun_params :: "mailgun \<Rightarrow> (string \<times> string) list" where
  "mailgun_params m =
     [(''from'', format (mailgun.from' m)),
      (''to'', mailgun_lists (mailgun.toList m)),
      (''subject'', mailgun.subject m)]
     @ (if length (mailgun.ccList m) > 0 then [(''cc'', mailgun_lists (mailgun.ccList m))] else [])
     @ (if length (mailgun.bccList m) > 0 then [(''bcc'', mailgun_lists (mailgun.bccList m))] else [])
     @ (if address.Email (mailgun.replyTo m) \<noteq> '''' then [(''h:Reply-To'', format (mailgun.replyTo m))] else [])
     @ (if mailgun.bodyText m \<noteq> '''' then [(''text'', mailgun.bodyText m)] else [])
     @ (if mailgun.bodyHTML m \<noteq> '''' then [(''html'', mailgun.bodyHTML m)] else [])"

definition mailgun_request :: "world \<Rightarrow> mailgun \<Rightarrow> outcome \<times> event list" where
  "mailgun_request w m =
     processMailgunRequest w m (mailgun_params m)
       [(''attachment'', mailgun.attachmentFiles m), (''inline'', mailgun.attachmentInlineFiles m)]"

definition mailgun_Send :: "world \<Rightarrow> mailgun \<Rightarrow> outcome \<times> event list" where
  "mailgun_Send w m =
     (case mailgun_verifyParams m of
        Some msg \<Rightarrow> (Panic msg, [])
      | None \<Rightarrow>
          andThen (totalFileSize w (mailgun.attachmentFiles m) 0) (\<lambda>totalSize.
            if mailgunMaxFileSize <s totalSize
            then (Returned (Some (errors_New ''gomailer: max attachment size for mailgun is 25MB'')), [])
            else mailgun_request w m))"

section \<open>SendGrid (sendgrid.go)\<close>

definition sendgridBaseURL :: string where "sendgridBaseURL = ''https://api.sendgrid.com/v3''"

definition sendgrid_messageURL :: "sendgrid \<Rightarrow> string" where
  "sendgrid_messageURL s =
     (let url = (if Configs.BaseURL (sendgrid.configs s) \<noteq> ''''
                 then Configs.BaseURL (sendgrid.configs s) else sendgridBaseURL)
      in url @ ''/mail/send'')"

definition processSendgridRequest :: "world \<Rightarrow> sendgrid \<Rightarrow> sendgrid_params \<Rightarrow> outcome \<times> event list" where
  "processSendgridRequest w s bodyParams =
     (case http_NewRequest w (sendgrid_messageURL s) of
        Some errReq \<Rightarrow> (Returned (Some errReq), [])
      | None \<Rightarrow>
          (let req = \<lparr>Method = ''POST'', URL = sendgrid_messageURL s,
                      Header = (if Configs.APIKey (sendgrid.configs s) \<noteq> ''''
                                then [(''Authorization'', ''Bearer '' @ Configs.APIKey (sendgrid.configs s))]
                                else [])
                               @ [(''Content-Type'', ''application/json'')],
                      basicAuth = None,
                      body = sendgrid_json bodyParams\<rparr>;
               cl = getDefaultClient (sendgrid.c' s)
           in case http_Do w cl req of
                Inl err \<Rightarrow> (Returned (Some err), [http_Do_call cl req])
              | Inr resp \<Rightarrow>
                  (if StatusCode resp \<noteq> 202 then Returned (Some (errors_New (http_response.Body resp)))
                   else Returned None,
                   [http_Do_call cl req])))"

text \<open>A \<^verbatim>\<open>nil\<close> slice and an empty one are both \<open>[]\<close>.\<close>

definition sendgrid_params_of :: "sendgrid \<Rightarrow> attachment list \<Rightarrow> sendgrid_params" where
  "sendgrid_params_of s atts =
     \<lparr>sendgrid_params.from' = sendgrid.from' s,
      personalizations =
        [\<lparr>to = (if length (sendgrid.toList s) > 0 then sendgrid.toList s else []),
          cc = (if length (sendgrid.ccList s) > 0 then sendgrid.ccList s else []),
          bcc = (if length (sendgrid.bccList s) > 0 then sendgrid.bccList s else []),
          subject = sendgrid.subject s\<rparr>],
      reply_to = (if address.Email (sendgrid.replyTo s) \<noteq> '''' then Some (sendgrid.replyTo s) else None),
      content =
        (if length (sendgrid.bodyText s) > 0
         then [\<lparr>sendgridContent.Type = ''text/plain'', Value = sendgrid.bodyText s\<rparr>] else [])
        @ (if length (sendgrid.bodyHTML s) > 0
           then [\<lparr>sendgridContent.Type = ''text/html'', Value = sendgrid.bodyHTML s\<rparr>] else []),
      sendgrid_params.attachments = (if length atts > 0 then Some atts else None)\<rparr>"

text \<open>\<^verbatim>\<open>Send\<close> from the first \<^verbatim>\<open>// build attachment\<close> on.\<close>

definition sendgrid_request :: "world \<Rightarrow> sendgrid \<Rightarrow> outcome \<times> event list" where
  "sendgrid_request w s =
     andThen (readFiles w as_attachment (sendgrid.attachmentFiles s)) (\<lambda>as1.
     andThen (readReaders w as_attachment (sendgrid.attachmentReaders s)) (\<lambda>as2.
     andThen (readFiles w as_inline (sendgrid.attachmentInlineFiles s)) (\<lambda>as3.
     andThen (readReaders w as_inline (sendgrid.attachmentInlineReaders s)) (\<lambda>as4.
       processSendgridRequest w s
         (sendgrid_params_of s (sendgrid.attachments s @ as1 @ as2 @ as3 @ as4))))))"

definition sendgrid_Send :: "world \<Rightarrow> sendgrid \<Rightarrow> outcome \<times> event list" where
  "sendgrid_Send w s =
     (case sendgrid_verifyParams s of
        Some msg \<Rightarrow> (Panic msg, [])
      | None \<Rightarrow>
          andThen (totalFileSize w (sendgrid.attachmentFiles s) 0) (\<lambda>totalSize.
            if sendgridMaxFileSize <s totalSize
            then (Returned (Some (errors_New ''gomailer: max attachment size for sendgrid is 30MB'')), [])
            else sendgrid_request w s))"

section \<open>Postmark (postmark.go)\<close>

definition postmarkBaseURL :: string where "postmarkBaseURL = ''https://api.postmarkapp.com''"

definition postmark_messageURL :: "postmark \<Rightarrow> string" where
  "postmark_messageURL p =
     (let url = (if Configs.BaseURL (postmark.configs p) \<noteq> ''''
                 then Configs.BaseURL (postmark.configs p) else postmarkBaseURL)
      in url @ ''/email'')"

definition processPostmarkRequest :: "world \<Rightarrow> postmark \<Rightarrow> postmark_params \<Rightarrow> outcome \<times> event list" where
  "processPostmarkRequest w p bodyParams =
     (case http_NewRequest w (postmark_messageURL p) of
        Some errReq \<Rightarrow> (Returned (Some errReq), [])
      | None \<Rightarrow>
          (let req = \<lparr>Method = ''POST'', URL = postmark_messageURL p,
                      Header = (if Configs.AccountToken (postmark.configs p) \<noteq> ''''
                                then [(''X-Postmark-Account-Token'', Configs.AccountToken (postmark.configs p))]
                                else [])
                               @ (if Configs.ServerToken (postmark.configs p) \<noteq> ''''
                                  then [(''X-Postmark-Server-Token'', Configs.ServerToken (postmark.configs p))]
                                  else [])
                               @ [(''Content-Type'', ''application/json'')],
                      basicAuth = None,
                      body = postmark_json bodyParams\<rparr>;
               cl = getDefaultClient (postmark.c' p)
           in case http_Do w cl req of
                Inl err \<Rightarrow> (Returned (Some err), [http_Do_call cl req])
              | Inr resp \<Rightarrow>
                  (if StatusCode resp \<noteq> 200 then Returned (Some (errors_New (http_response.Body resp)))
                   else Returned None,
                   [http_Do_call cl req])))"

definition postmark_attachment_of :: "attachment \<Rightarrow> postmarkAttachment" where
  "postmark_attachment_of a =
     \<lparr>postmarkAttachment.Name = attachment.FileName a,
      postmarkAttachment.Content = attachment.Content a,
      postmarkAttachment.ContentType = attachment.Type a,
      postmarkAttachment.ContentID = attachment.ContentID a\<rparr>"

definition postmark_params_of :: "postmark \<Rightarrow> attachment list \<Rightarrow> postmark_params" where
  "postmark_params_of p atts =
     \<lparr>postmark_params.From = format (postmark.from' p),
      postmark_params.Subject = postmark.subject p,
      postmark_params.To =
        (if length (postmark.toList p) > 0
         then Some (strings_Join (map format (postmark.toList p)) '','') else None),
      postmark_params.Cc =
        (if length (postmark.ccList p) > 0
         then Some (strings_Join (map format (postmark.ccList p)) '','') else None),
      postmark_params.Bcc =
        (if length (postmark.bccList p) > 0
         then Some (strings_Join (map format (postmark.bccList p)) '','') else None),
      postmark_params.ReplyTo =
        (if address.Email (postmark.replyTo p) \<noteq> '''' then Some (postmark.replyTo p) else None),
      TextBody = (if length (postmark.bodyText p) > 0 then Some (postmark.bodyText p) else None),
      HtmlBody = (if length (postmark.bodyHTML p) > 0 then Some (postmark.bodyHTML p) else None),
      postmark_params.Attachments =
        (if length atts > 0 then Some (map postmark_attachment_of atts) else None)\<rparr>"

definition postmark_request :: "world \<Rightarrow> postmark \<Rightarrow> outcome \<times> event list" where
  "postmark_request w p =
     andThen (readFiles w as_attachment (postmark.attachmentFiles p)) (\<lambda>as1.
     andThen (readFiles w as_inline (postmark.attachmentInlineFiles p)) (\<lambda>as2.
       processPostmarkRequest w p
         (postmark_params_of p (postmark.attachments p @ as1 @ as2))))"

definition postmark_Send :: "world \<Rightarrow> postmark \<Rightarrow> outcome \<times> event list" where
  "postmark_Send w p =
     (case postmark_verifyParams p of
        Some msg \<Rightarrow> (Panic msg, [])
      | None \<Rightarrow>
          andThen (totalFileSize w (postmark.attachmentFiles p) 0) (\<lambda>totalSize.
            if postmarkMaxFileSize <s totalSize
            then (Returned (Some (errors_New ''gomailer: max attachment size for postmark is 5MB'')), [])
            else postmark_request w p))"

section \<open>Mailjet (mailjet.go)\<close>

definition mailjetBaseURL :: string where "mailjetBaseURL = ''https://api.mailjet.com/v3.1''"

definition mailjet_messageURL :: "mailjet \<Rightarrow> string" where
  "mailjet_messageURL m =
     (let url = (if Configs.BaseURL (mailjet.configs m) \<noteq> ''''
                 then Configs.BaseURL (mailjet.configs m) else mailjetBaseURL)
      in url @ ''/send'')"

definition processMailjetRequest :: "world \<Rightarrow> mailjet \<Rightarrow> mailjet_params list \<Rightarrow> outcome \<times> event list" where
  "processMailjetRequest w m messages =
     (case http_NewRequest w (mailjet_messageURL m) of
        Some errReq \<Rightarrow> (Returned (Some errReq), [])
      | None \<Rightarrow>
          (let req = \<lparr>Method = ''POST'', URL = mailjet_messageURL m,
                      Header = [(''Content-Type'', ''application/json'')],
                      basicAuth = Some (Configs.PublicKey (mailjet.configs m),
                                        Configs.PrivateKey (mailjet.configs m)),
                      body = mailjet_json messages\<rparr>;
               cl = getDefaultClient (mailjet.c' m)
           in case http_Do w cl req of
                Inl err \<Rightarrow> (Returned (Some err), [http_Do_call cl req])
              | Inr resp \<Rightarrow>
                  (if StatusCode resp \<noteq> 200 then Returned (Some (errors_New (http_response.Body resp)))
                   else Returned None,
                   [http_Do_call cl req])))"

definition mailjet_attachment_of :: "attachment \<Rightarrow> mailjetAttachment" where
  "mailjet_attachment_of a =
     \<lparr>mailjetAttachment.Name = attachment.FileName a,
      mailjetAttachment.Content = attachment.Content a,
      mailjetAttachment.ContentType = attachment.Type a,
      mailjetAttachment.ContentID = ''''\<rparr>"

definition mailjet_inlined_of :: "attachment \<Rightarrow> mailjetAttachment" where
  "mailjet_inlined_of a =
     \<lparr>mailjetAttachment.Name = attachment.FileName a,
      mailjetAttachment.Content = attachment.Content a,
      mailjetAttachment.ContentType = attachment.Type a,
      mailjetAttachment.ContentID = attachment.ContentID a\<rparr>"

definition mailjet_params_of :: "mailjet \<Rightarrow> mailjetAttachment list \<Rightarrow> mailjetAttachment list \<Rightarrow> mailjet_params" where
  "mailjet_params_of m atts inlined =
     \<lparr>mailjet_params.From = mailjet.from' m,
      mailjet_params.Subject = mailjet.subject m,
      mailjet_params.To = (if length (mailjet.toList m) > 0 then Some (mailjet.toList m) else None),
      mailjet_params.Cc = (if length (mailjet.ccList m) > 0 then Some (mailjet.ccList m) else None),
      mailjet_params.Bcc = (if length (mailjet.bccList m) > 0 then Some (mailjet.bccList m) else None),
      mailjet_params.ReplyTo =
        (if mailjetAddress.Email (mailjet.replyTo m) \<noteq> '''' then Some (mailjet.replyTo m) else None),
      TextPart = (if length (mailjet.bodyText m) > 0 then Some (mailjet.bodyText m) else None),
      HTMLPart = (if length (mailjet.bodyHTML m) > 0 then Some (mailjet.bodyHTML m) else None),
      mailjet_params.Attachments =
        (if length (mailjet.attachmentFiles m) > 0 then Some atts else None),
      InlinedAttachments =
        (if length (mailjet.attachmentInlineFiles m) > 0 then Some inlined else None)\<rparr>"

definition mailjet_request :: "world \<Rightarrow> mailjet \<Rightarrow> outcome \<times> event list" where
  "mailjet_request w m =
     andThen (readFiles w mailjet_attachment_of (mailjet.attachmentFiles m)) (\<lambda>atts.
     andThen (readFiles w mailjet_inlined_of (mailjet.attachmentInlineFiles m)) (\<lambda>inlined.
       processMailjetRequest w m [mailjet_params_of m atts inlined]))"

text \<open>
  \<^verbatim>\<open>totalFiles\<close> is built by appending \<^verbatim>\<open>m.attachmentFiles\<close> twice, as the source does.
\<close>

definition mailjet_totalFiles :: "mailjet \<Rightarrow> string list" where
  "mailjet_totalFiles m = ([] @ mailjet.attachmentFiles m) @ mailjet.attachmentFiles m"

definition mailjet_Send :: "world \<Rightarrow> mailjet \<Rightarrow> outcome \<times> event list" where
  "mailjet_Send w m =
     (case mailjet_verifyParams m of
        Some msg \<Rightarrow> (Panic msg, [])
      | None \<Rightarrow>
          andThen (totalFileSize w (mailjet_totalFiles m) 0) (\<lambda>totalSize.
            if mailjetMaxFileSize <s totalSize
            then (Returned (Some (errors_New ''gomailer: max attachment size for mailjet is 15MB'')), [])
            else mailjet_request w m))"

section \<open>Customer.io (customerio.go)\<close>

definition customerio_lists :: "address list \<Rightarrow> string" where
  "customerio_lists a = (if length a \<le> 0 then '''' else strings_Join (map format a) '','')"

text \<open>
  The request literal, then the conditional assignments in the source's order. The fields
  the literal leaves out are zero.
\<close>

definition customerio_req0 :: "world \<Rightarrow> customerio \<Rightarrow> SendEmailRequest" where
  "customerio_req0 w c =
     \<lparr>SendEmailRequest.From = format (customerio.from' c),
      SendEmailRequest.To = customerio_lists (customerio.toList c),
      SendEmailRequest.Subject = customerio.subject c,
      Identifiers = [(''id'', uuid_New w)],
      BCC = '''',
      SendEmailRequest.ReplyTo = '''',
      PlaintextBody = '''',
      SendEmailRequest.Body = '''',
      SendEmailRequest.Attachments = []\<rparr>"

definition customerio_files :: "attachment list \<Rightarrow> (string \<times> string) list" where
  "customerio_files atts =
     fold (\<lambda>a files. AList.update (attachment.FileName a) (attachment.Content a) files) atts []"

definition customerio_req :: "world \<Rightarrow> customerio \<Rightarrow> attachment list \<Rightarrow> SendEmailRequest" where
  "customerio_req w c atts =
     (let req = customerio_req0 w c;
          req = (if length (customerio.ccList c) > 0
                 then req\<lparr>BCC := customerio_lists (customerio.ccList c)\<rparr> else req);
          req = (if length (customerio.bccList c) > 0
                 then req\<lparr>BCC := customerio_lists (customerio.bccList c)\<rparr> else req);
          req = (if address.Email (customerio.replyTo c) \<noteq> ''''
                 then req\<lparr>SendEmailRequest.ReplyTo := format (customerio.replyTo c)\<rparr> else req);
          req = (if customerio.bodyText c \<noteq> ''''
                 then req\<lparr>PlaintextBody := customerio.bodyText c\<rparr> else req);
          req = (if customerio.bodyHTML c \<noteq> ''''
                 then req\<lparr>SendEmailRequest.Body := customerio.bodyHTML c\<rparr> else req);
          req = (if length atts > 0
                 then req\<lparr>SendEmailRequest.Attachments := customerio_files atts\<rparr> else req)
      in req)"

definition customerio_request :: "world \<Rightarrow> customerio \<Rightarrow> outcome \<times> event list" where
  "customerio_request w c =
     andThen (readFiles w as_attachment (customerio.attachmentFiles c)) (\<lambda>as1.
     andThen (readReaders w as_attachment (customerio.attachmentReaders c)) (\<lambda>as2.
     andThen (readFiles w as_inline (customerio.attachmentInlineFiles c)) (\<lambda>as3.
     andThen (readReaders w as_inline (customerio.attachmentInlineReaders c)) (\<lambda>as4.
       (let req = customerio_req w c (customerio.attachments c @ as1 @ as2 @ as3 @ as4);
            key = Configs.APIKey (customerio.configs c)
        in (Returned (cio_SendEmail w key req), [cio_SendEmail_call key req]))))))"

definition customerio_Send :: "world \<Rightarrow> customerio \<Rightarrow> outcome \<times> event list" where
  "customerio_Send w c =
     (case customerio_verifyParams c of
        Some msg \<Rightarrow> (Panic msg, [])
      | None \<Rightarrow>
          andThen (totalFileSize w (customerio.attachmentFiles c) 0) (\<lambda>totalSize.
            if customerioMaxFileSize <s totalSize
            then (Returned (Some (errors_New ''gomailer: max attachment size for customerio is 30MB'')), [])
            else customerio_request w c))"

section \<open>Send through the interface\<close>

fun Send :: "world \<Rightarrow> Mailer \<Rightarrow> outcome \<times> event list" where
  "Send w (Mailer_mailgun m) = mailgun_Send w m"
| "Send w (Mailer_sendgrid s) = sendgrid_Send w s"
| "Send w (Mailer_postmark p) = postmark_Send w p"
| "Send w (Mailer_mailjet m) = mailjet_Send w m"
| "Send w (Mailer_customerio c) = customerio_Send w c"

section \<open>The builder's setters\<close>

text \<open>
  Each setter changes the adapter behind the pointer and returns that pointer: the model
  takes the adapter's state and returns the state after the call. \<^verbatim>\<open>append\<close> on a slice
  adds at the end.
\<close>

subsection \<open>mailgun\<close>

definition mailgun_From :: "string \<Rightarrow> string \<Rightarrow> mailgun \<Rightarrow> mailgun" where
  "mailgun_From name email m =
     m\<lparr>mailgun.from' := \<lparr>address.Name = name, address.Email = email, address.Type = ''''\<rparr>\<rparr>"

definition mailgun_To :: "string \<Rightarrow> string \<Rightarrow> mailgun \<Rightarrow> mailgun" where
  "mailgun_To name email m =
     m\<lparr>mailgun.toList := mailgun.toList m @ [\<lparr>address.Name = name, address.Email = email, address.Type = ''''\<rparr>]\<rparr>"

definition mailgun_Cc :: "string \<Rightarrow> string \<Rightarrow> mailgun \<Rightarrow> mailgun" where
  "mailgun_Cc name email m =
     m\<lparr>mailgun.ccList := mailgun.ccList m @ [\<lparr>address.Name = name, address.Email = email, address.Type = ''''\<rparr>]\<rparr>"

definition mailgun_Bcc :: "string \<Rightarrow> string \<Rightarrow> mailgun \<Rightarrow> mailgun" where
  "mailgun_Bcc name email m =
     m\<lparr>mailgun.bccList := mailgun.bccList m @ [\<lparr>address.Name = name, address.Email = email, address.Type = ''''\<rparr>]\<rparr>"

definition mailgun_ReplyTo :: "string \<Rightarrow> string \<Rightarrow> mailgun \<Rightarrow> mailgun" where
  "mailgun_ReplyTo name email m =
     m\<lparr>mailgun.replyTo := \<lparr>address.Name = name, address.Email = email, address.Type = ''''\<rparr>\<rparr>"

definition mailgun_Subject :: "string \<Rightarrow> mailgun \<Rightarrow> mailgun" where
  "mailgun_Subject sub m =
     m\<lparr>mailgun.subject := sub\<rparr>"

definition mailgun_BodyHTML :: "string \<Rightarrow> mailgun \<Rightarrow> mailgun" where
  "mailgun_BodyHTML html m =
     m\<lparr>mailgun.bodyHTML := html\<rparr>"

definition mailgun_BodyText :: "string \<Rightarrow> mailgun \<Rightarrow> mailgun" where
  "mailgun_BodyText text m =
     m\<lparr>mailgun.bodyText := text\<rparr>"

definition mailgun_AttachmentFile :: "string \<Rightarrow> mailgun \<Rightarrow> mailgun" where
  "mailgun_AttachmentFile file m =
     m\<lparr>mailgun.attachmentFiles := mailgun.attachmentFiles m @ [file]\<rparr>"

definition mailgun_AttachmentInlineFile :: "string \<Rightarrow> mailgun \<Rightarrow> mailgun" where
  "mailgun_AttachmentInlineFile file m =
     m\<lparr>mailgun.attachmentInlineFiles := mailgun.attachmentInlineFiles m @ [file]\<rparr>"

text \<open>\<^verbatim>\<open>mailgun.go\<close> defines no \<^verbatim>\<open>AttachmentReader\<close> and no \<^verbatim>\<open>AttachmentInlineReader\<close>.\<close>

subsection \<open>sendgrid\<close>

definition sendgrid_From :: "string \<Rightarrow> string \<Rightarrow> sendgrid \<Rightarrow> sendgrid" where
  "sendgrid_From name email s =
     s\<lparr>sendgrid.from' := \<lparr>address.Name = name, address.Email = email, address.Type = ''''\<rparr>\<rparr>"

definition sendgrid_To :: "string \<Rightarrow> string \<Rightarrow> sendgrid \<Rightarrow> sendgrid" where
  "sendgrid_To name email s =
     s\<lparr>sendgrid.toList := sendgrid.toList s @ [\<lparr>address.Name = name, address.Email = email, address.Type = ''''\<rparr>]\<rparr>"

definition sendgrid_Cc :: "string \<Rightarrow> string \<Rightarrow> sendgrid \<Rightarrow> sendgrid" where
  "sendgrid_Cc name email s =
     s\<lparr>sendgrid.ccList := sendgrid.ccList s @ [\<lparr>address.Name = name, address.Email = email, address.Type = ''''\<rparr>]\<rparr>"

definition sendgrid_Bcc :: "string \<Rightarrow> string \<Rightarrow> sendgrid \<Rightarrow> sendgrid" where
  "sendgrid_Bcc name email s =
     s\<lparr>sendgrid.bccList := sendgrid.bccList s @ [\<lparr>address.Name = name, address.Email = email, address.Type = ''''\<rparr>]\<rparr>"

definition sendgrid_ReplyTo :: "string \<Rightarrow> string \<Rightarrow> sendgrid \<Rightarrow> sendgrid" where
  "sendgrid_ReplyTo name email s =
     s\<lparr>sendgrid.replyTo := \<lparr>address.Name = name, address.Email = email, address.Type = ''''\<rparr>\<rparr>"

definition sendgrid_Subject :: "string \<Rightarrow> sendgrid \<Rightarrow> sendgrid" where
  "sendgrid_Subject sub s =
     s\<lparr>sendgrid.subject := sub\<rparr>"

definition sendgrid_BodyHTML :: "string \<Rightarrow> sendgrid \<Rightarrow> sendgrid" where
  "sendgrid_BodyHTML html s =
     s\<lparr>sendgrid.bodyHTML := html\<rparr>"

definition sendgrid_BodyText :: "string \<Rightarrow> sendgrid \<Rightarrow> sendgrid" where
  "sendgrid_BodyText text s =
     s\<lparr>sendgrid.bodyText := text\<rparr>"

definition sendgrid_AttachmentFile :: "string \<Rightarrow> sendgrid \<Rightarrow> sendgrid" where
  "sendgrid_AttachmentFile file s =
     s\<lparr>sendgrid.attachmentFiles := sendgrid.attachmentFiles s @ [file]\<rparr>"

definition sendgrid_AttachmentInlineFile :: "string \<Rightarrow> sendgrid \<Rightarrow> sendgrid" where
  "sendgrid_AttachmentInlineFile file s =
     s\<lparr>sendgrid.attachmentInlineFiles := sendgrid.attachmentInlineFiles s @ [file]\<rparr>"

text \<open>\<^verbatim>\<open>make(map[string]readerInfo)\<close> is a fresh empty map, then the one entry is stored.\<close>

definition sendgrid_AttachmentReader :: "string \<Rightarrow> reader \<Rightarrow> sendgrid \<Rightarrow> sendgrid" where
  "sendgrid_AttachmentReader file rd s =
     s\<lparr>sendgrid.attachmentReaders := AList.update file \<lparr>size' = 0, r' = rd\<rparr> []\<rparr>"

definition sendgrid_AttachmentInlineReader :: "string \<Rightarrow> reader \<Rightarrow> sendgrid \<Rightarrow> sendgrid" where
  "sendgrid_AttachmentInlineReader file rd s =
     s\<lparr>sendgrid.attachmentInlineReaders := AList.update file \<lparr>size' = 0, r' = rd\<rparr> []\<rparr>"

subsection \<open>mailjet\<close>

definition mailjet_From :: "string \<Rightarrow> string \<Rightarrow> mailjet \<Rightarrow> mailjet" where
  "mailjet_From name email m =
     m\<lparr>mailjet.from' := \<lparr>mailjetAddress.Name = name, mailjetAddress.Email = email\<rparr>\<rparr>"

definition mailjet_To :: "string \<Rightarrow> string \<Rightarrow> mailjet \<Rightarrow> mailjet" where
  "mailjet_To name email m =
     m\<lparr>mailjet.toList := mailjet.toList m @ [\<lparr>mailjetAddress.Name = name, mailjetAddress.Email = email\<rparr>]\<rparr>"

definition mailjet_Cc :: "string \<Rightarrow> string \<Rightarrow> mailjet \<Rightarrow> mailjet" where
  "mailjet_Cc name email m =
     m\<lparr>mailjet.ccList := mailjet.ccList m @ [\<lparr>mailjetAddress.Name = name, mailjetAddress.Email = email\<rparr>]\<rparr>"

definition mailjet_Bcc :: "string \<Rightarrow> string \<Rightarrow> mailjet \<Rightarrow> mailjet" where
  "mailjet_Bcc name email m =
     m\<lparr>mailjet.bccList := mailjet.bccList m @ [\<lparr>mailjetAddress.Name = name, mailjetAddress.Email = email\<rparr>]\<rparr>"

definition mailjet_ReplyTo :: "string \<Rightarrow> string \<Rightarrow> mailjet \<Rightarrow> mailjet" where
  "mailjet_ReplyTo name email m =
     m\<lparr>mailjet.replyTo := \<lparr>mailjetAddress.Name = name, mailjetAddress.Email = email\<rparr>\<rparr>"

definition mailjet_Subject :: "string \<Rightarrow> mailjet \<Rightarrow> mailjet" where
  "mailjet_Subject sub m =
     m\<lparr>mailjet.subject := sub\<rparr>"

definition mailjet_BodyHTML :: "string \<Rightarrow> mailjet \<Rightarrow> mailjet" where
  "mailjet_BodyHTML html m =
     m\<lparr>mailjet.bodyHTML := html\<rparr>"

definition mailjet_BodyText :: "string \<Rightarrow> mailjet \<Rightarrow> mailjet" where
  "mailjet_BodyText text m =
     m\<lparr>mailjet.bodyText := text\<rparr>"

definition mailjet_AttachmentFile :: "string \<Rightarrow> mailjet \<Rightarrow> mailjet" where
  "mailjet_AttachmentFile file m =
     m\<lparr>mailjet.attachmentFiles := mailjet.attachmentFiles m @ [file]\<rparr>"

definition mailjet_AttachmentInlineFile :: "string \<Rightarrow> mailjet \<Rightarrow> mailjet" where
  "mailjet_AttachmentInlineFile file m =
     m\<lparr>mailjet.attachmentInlineFiles := mailjet.attachmentInlineFiles m @ [file]\<rparr>"

text \<open>
  The two reader setters call \<^verbatim>\<open>log.Println("gomailer: not implemented")\<close> and return the
  adapter: the model returns the adapter and the lines logged (without the time stamp
  that the logger puts before them).
\<close>

definition mailjet_AttachmentReader :: "string \<Rightarrow> reader \<Rightarrow> mailjet \<Rightarrow> mailjet \<times> string list" where
  "mailjet_AttachmentReader file rd m =
     (m, [''gomailer: not implemented''])"

definition mailjet_AttachmentInlineReader :: "string \<Rightarrow> reader \<Rightarrow> mailjet \<Rightarrow> mailjet \<times> string list" where
  "mailjet_AttachmentInlineReader file rd m =
     (m, [''gomailer: not implemented''])"

subsection \<open>postmark\<close>

definition postmark_From :: "string \<Rightarrow> string \<Rightarrow> postmark \<Rightarrow> postmark" where
  "postmark_From name email p =
     p\<lparr>postmark.from' := \<lparr>address.Name = name, address.Email = email, address.Type = ''''\<rparr>\<rparr>"

definition postmark_To :: "string \<Rightarrow> string \<Rightarrow> postmark \<Rightarrow> postmark" where
  "postmark_To name email p =
     p\<lparr>postmark.toList := postmark.toList p @ [\<lparr>address.Name = name, address.Email = email, address.Type = ''''\<rparr>]\<rparr>"

definition postmark_Cc :: "string \<Rightarrow> string \<Rightarrow> postmark \<Rightarrow> postmark" where
  "postmark_Cc name email p =
     p\<lparr>postmark.ccList := postmark.ccList p @ [\<lparr>address.Name = name, address.Email = email, address.Type = ''''\<rparr>]\<rparr>"

definition postmark_Bcc :: "string \<Rightarrow> string \<Rightarrow> postmark \<Rightarrow> postmark" where
  "postmark_Bcc name email p =
     p\<lparr>postmark.bccList := postmark.bccList p @ [\<lparr>address.Name = name, address.Email = email, address.Type = ''''\<rparr>]\<rparr>"

definition postmark_ReplyTo :: "string \<Rightarrow> string \<Rightarrow> postmark \<Rightarrow> postmark" where
  "postmark_ReplyTo name email p =
     p\<lparr>postmark.replyTo := \<lparr>address.Name = name, address.Email = email, address.Type = ''''\<rparr>\<rparr>"

definition postmark_Subject :: "string \<Rightarrow> postmark \<Rightarrow> postmark" where
  "postmark_Subject sub p =
     p\<lparr>postmark.subject := sub\<rparr>"

definition postmark_BodyHTML :: "string \<Rightarrow> postmark \<Rightarrow> postmark" where
  "postmark_BodyHTML html p =
     p\<lparr>postmark.bodyHTML := html\<rparr>"

definition postmark_BodyText :: "string \<Rightarrow> postmark \<Rightarrow> postmark" where
  "postmark_BodyText text p =
     p\<lparr>postmark.bodyText := text\<rparr>"

definition postmark_AttachmentFile :: "string \<Rightarrow> postmark \<Rightarrow> postmark" where
  "postmark_AttachmentFile file p =
     p\<lparr>postmark.attachmentFiles := postmark.attachmentFiles p @ [file]\<rparr>"

definition postmark_AttachmentInlineFile :: "string \<Rightarrow> postmark \<Rightarrow> postmark" where
  "postmark_AttachmentInlineFile file p =
     p\<lparr>postmark.attachmentInlineFiles := postmark.attachmentInlineFiles p @ [file]\<rparr>"

text \<open>
  The two reader setters call \<^verbatim>\<open>log.Println("gomailer: not implemented")\<close> and return the
  adapter: the model returns the adapter and the lines logged (without the time stamp
  that the logger puts before them).
\<close>

definition postmark_AttachmentReader :: "string \<Rightarrow> reader \<Rightarrow> postmark \<Rightarrow> postmark \<times> string list" where
  "postmark_AttachmentReader file rd p =
     (p, [''gomailer: not implemented''])"

definition postmark_AttachmentInlineReader :: "string \<Rightarrow> reader \<Rightarrow> postmark \<Rightarrow> postmark \<times> string list" where
  "postmark_AttachmentInlineReader file rd p =
     (p, [''gomailer: not implemented''])"

subsection \<open>customerio\<close>

definition customerio_From :: "string \<Rightarrow> string \<Rightarrow> customerio \<Rightarrow> customerio" where
  "customerio_From name email c =
     c\<lparr>customerio.from' := \<lparr>address.Name = name, address.Email = email, address.Type = ''''\<rparr>\<rparr>"

definition customerio_To :: "string \<Rightarrow> string \<Rightarrow> customerio \<Rightarrow> customerio" where
  "customerio_To name email c =
     c\<lparr>customerio.toList := customerio.toList c @ [\<lparr>address.Name = name, address.Email = email, address.Type = ''''\<rparr>]\<rparr>"

definition customerio_Cc :: "string \<Rightarrow> string \<Rightarrow> customerio \<Rightarrow> customerio" where
  "customerio_Cc name email c =
     c\<lparr>customerio.ccList := customerio.ccList c @ [\<lparr>address.Name = name, address.Email = email, address.Type = ''''\<rparr>]\<rparr>"

definition customerio_Bcc :: "string \<Rightarrow> string \<Rightarrow> customerio \<Rightarrow> customerio" where
  "customerio_Bcc name email c =
     c\<lparr>customerio.bccList := customerio.bccList c @ [\<lparr>address.Name = name, address.Email = email, address.Type = ''''\<rparr>]\<rparr>"

definition customerio_ReplyTo :: "string \<Rightarrow> string \<Rightarrow> customerio \<Rightarrow> customerio" where
  "customerio_ReplyTo name email c =
     c\<lparr>customerio.replyTo := \<lparr>address.Name = name, address.Email = email, address.Type = ''''\<rparr>\<rparr>"

definition customerio_Subject :: "string \<Rightarrow> customerio \<Rightarrow> customerio" where
  "customerio_Subject sub c =
     c\<lparr>customerio.subject := sub\<rparr>"

definition customerio_BodyHTML :: "string \<Rightarrow> customerio \<Rightarrow> customerio" where
  "customerio_BodyHTML html c =
     c\<lparr>customerio.bodyHTML := html\<rparr>"

definition customerio_BodyText :: "string \<Rightarrow> customerio \<Rightarrow> customerio" where
  "customerio_BodyText text c =
     c\<lparr>customerio.bodyText := text\<rparr>"

definition customerio_AttachmentFile :: "string \<Rightarrow> customerio \<Rightarrow> customerio" where
  "customerio_AttachmentFile file c =
     c\<lparr>customerio.attachmentFiles := customerio.attachmentFiles c @ [file]\<rparr>"

definition customerio_AttachmentInlineFile :: "string \<Rightarrow> customerio \<Rightarrow> customerio" where
  "customerio_AttachmentInlineFile file c =
     c\<lparr>customerio.attachmentInlineFiles := customerio.attachmentInlineFiles c @ [file]\<rparr>"

text \<open>\<^verbatim>\<open>make(map[string]readerInfo)\<close> is a fresh empty map, then the one entry is stored.\<close>

definition customerio_AttachmentReader :: "string \<Rightarrow> reader \<Rightarrow> customerio \<Rightarrow> customerio" where
  "customerio_AttachmentReader file rd c =
     c\<lparr>customerio.attachmentReaders := AList.update file \<lparr>size' = 0, r' = rd\<rparr> []\<rparr>"

definition customerio_AttachmentInlineReader :: "string \<Rightarrow> reader \<Rightarrow> customerio \<Rightarrow> customerio" where
  "customerio_AttachmentInlineReader file rd c =
     c\<lparr>customerio.attachmentInlineReaders := AList.update file \<lparr>size' = 0, r' = rd\<rparr> []\<rparr>"

subsection \<open>The setters through the interface\<close>

text \<open>The method of the adapter behind the interface value; the result is that adapter.\<close>

fun Mailer_From :: "string \<Rightarrow> string \<Rightarrow> Mailer \<Rightarrow> Mailer" where
  "Mailer_From name email (Mailer_mailgun m) = Mailer_mailgun (mailgun_From name email m)"
| "Mailer_From name email (Mailer_sendgrid s) = Mailer_sendgrid (sendgrid_From name email s)"
| "Mailer_From name email (Mailer_postmark p) = Mailer_postmark (postmark_From name email p)"
| "Mailer_From name email (Mailer_mailjet m) = Mailer_mailjet (mailjet_From name email m)"
| "Mailer_From name email (Mailer_customerio c) = Mailer_customerio (customerio_From name email c)"

fun Mailer_To :: "string \<Rightarrow> string \<Rightarrow> Mailer \<Rightarrow> Mailer" where
  "Mailer_To name email (Mailer_mailgun m) = Mailer_mailgun (mailgun_To name email m)"
| "Mailer_To name email (Mailer_sendgrid s) = Mailer_sendgrid (sendgrid_To name email s)"
| "Mailer_To name email (Mailer_postmark p) = Mailer_postmark (postmark_To name email p)"
| "Mailer_To name email (Mailer_mailjet m) = Mailer_mailjet (mailjet_To name email m)"
| "Mailer_To name email (Mailer_customerio c) = Mailer_customerio (customerio_To name email c)"

fun Mailer_Cc :: "string \<Rightarrow> string \<Rightarrow> Mailer \<Rightarrow> Mailer" where
  "Mailer_Cc name email (Mailer_mailgun m) = Mailer_mailgun (mailgun_Cc name email m)"
| "Mailer_Cc name email (Mailer_sendgrid s) = Mailer_sendgrid (sendgrid_Cc name email s)"
| "Mailer_Cc name email (Mailer_postmark p) = Mailer_postmark (postmark_Cc name email p)"
| "Mailer_Cc name email (Mailer_mailjet m) = Mailer_mailjet (mailjet_Cc name email m)"
| "Mailer_Cc name email (Mailer_customerio c) = Mailer_customerio (customerio_Cc name email c)"

fun Mailer_Bcc :: "string \<Rightarrow> string \<Rightarrow> Mailer \<Rightarrow> Mailer" where
  "Mailer_Bcc name email (Mailer_mailgun m) = Mailer_mailgun (mailgun_Bcc name email m)"
| "Mailer_Bcc name email (Mailer_sendgrid s) = Mailer_sendgrid (sendgrid_Bcc name email s)"
| "Mailer_Bcc name email (Mailer_postmark p) = Mailer_postmark (postmark_Bcc name email p)"
| "Mailer_Bcc name email (Mailer_mailjet m) = Mailer_mailjet (mailjet_Bcc name email m)"
| "Mailer_Bcc name email (Mailer_customerio c) = Mailer_customerio (customerio_Bcc name email c)"

fun Mailer_ReplyTo :: "string \<Rightarrow> string \<Rightarrow> Mailer \<Rightarrow> Mailer" where
  "Mailer_ReplyTo name email (Mailer_mailgun m) = Mailer_mailgun (mailgun_ReplyTo name email m)"
| "Mailer_ReplyTo name email (Mailer_sendgrid s) = Mailer_sendgrid (sendgrid_ReplyTo name email s)"
| "Mailer_ReplyTo name email (Mailer_postmark p) = Mailer_postmark (postmark_ReplyTo name email p)"
| "Mailer_ReplyTo name email (Mailer_mailjet m) = Mailer_mailjet (mailjet_ReplyTo name email m)"
| "Mailer_ReplyTo name email (Mailer_customerio c) = Mailer_customerio (customerio_ReplyTo name email c)"

fun Mailer_Subject :: "string \<Rightarrow> Mailer \<Rightarrow> Mailer" where
  "Mailer_Subject sub (Mailer_mailgun m) = Mailer_mailgun (mailgun_Subject sub m)"
| "Mailer_Subject sub (Mailer_sendgrid s) = Mailer_sendgrid (sendgrid_Subject sub s)"
| "Mailer_Subject sub (Mailer_postmark p) = Mailer_postmark (postmark_Subject sub p)"
| "Mailer_Subject sub (Mailer_mailjet m) = Mailer_mailjet (mailjet_Subject sub m)"
| "Mailer_Subject sub (Mailer_customerio c) = Mailer_customerio (customerio_Subject sub c)"

fun Mailer_BodyHTML :: "string \<Rightarrow> Mailer \<Rightarrow> Mailer" where
  "Mailer_BodyHTML html (Mailer_mailgun m) = Mailer_mailgun (mailgun_BodyHTML html m)"
| "Mailer_BodyHTML html (Mailer_sendgrid s) = Mailer_sendgrid (sendgrid_BodyHTML html s)"
| "Mailer_BodyHTML html (Mailer_postmark p) = Mailer_postmark (postmark_BodyHTML html p)"
| "Mailer_BodyHTML html (Mailer_mailjet m) = Mailer_mailjet (mailjet_BodyHTML html m)"
| "Mailer_BodyHTML html (Mailer_customerio c) = Mailer_customerio (customerio_BodyHTML html c)"

fun Mailer_BodyText :: "string \<Rightarrow> Mailer \<Rightarrow> Mailer" where
  "Mailer_BodyText text (Mailer_mailgun m) = Mailer_mailgun (mailgun_BodyText text m)"
| "Mailer_BodyText text (Mailer_sendgrid s) = Mailer_sendgrid (sendgrid_BodyText text s)"
| "Mailer_BodyText text (Mailer_postmark p) = Mailer_postmark (postmark_BodyText text p)"
| "Mailer_BodyText text (Mailer_mailjet m) = Mailer_mailjet (mailjet_BodyText text m)"
| "Mailer_BodyText text (Mailer_customerio c) = Mailer_customerio (customerio_BodyText text c)"

fun Mailer_AttachmentFile :: "string \<Rightarrow> Mailer \<Rightarrow> Mailer" where
  "Mailer_AttachmentFile file (Mailer_mailgun m) = Mailer_mailgun (mailgun_AttachmentFile file m)"
| "Mailer_AttachmentFile file (Mailer_sendgrid s) = Mailer_sendgrid (sendgrid_AttachmentFile file s)"
| "Mailer_AttachmentFile file (Mailer_postmark p) = Mailer_postmark (postmark_AttachmentFile file p)"
| "Mailer_AttachmentFile file (Mailer_mailjet m) = Mailer_mailjet (mailjet_AttachmentFile file m)"
| "Mailer_AttachmentFile file (Mailer_customerio c) = Mailer_customerio (customerio_AttachmentFile file c)"

fun Mailer_AttachmentInlineFile :: "string \<Rightarrow> Mailer \<Rightarrow> Mailer" where
  "Mailer_AttachmentInlineFile file (Mailer_mailgun m) = Mailer_mailgun (mailgun_AttachmentInlineFile file m)"
| "Mailer_AttachmentInlineFile file (Mailer_sendgrid s) = Mailer_sendgrid (sendgrid_AttachmentInlineFile file s)"
| "Mailer_AttachmentInlineFile file (Mailer_postmark p) = Mailer_postmark (postmark_AttachmentInlineFile file p)"
| "Mailer_AttachmentInlineFile file (Mailer_mailjet m) = Mailer_mailjet (mailjet_AttachmentInlineFile file m)"
| "Mailer_AttachmentInlineFile file (Mailer_customerio c) = Mailer_customerio (customerio_AttachmentInlineFile file c)"

section \<open>The factory (mailer.go)\<close>

text \<open>
  The constants of the \<^verbatim>\<open>const\<close> block: \<^verbatim>\<open>iota\<close> counts the block's lines from zero,
  \<^verbatim>\<open>defaultTimeout\<close> is line 0 and the blank identifier line 1.
\<close>

type_synonym driver = int

definition MAILGUN :: driver where "MAILGUN = 2"
definition SENDGRID :: driver where "SENDGRID = 3"
definition POSTMARK :: driver where "POSTMARK = 4"
definition MAILJET :: driver where "MAILJET = 5"
definition CUSTOMERIO :: driver where "CUSTOMERIO = 6"

text \<open>The composite literals of the factory: the fields not named are zero.\<close>

definition mailjetAddress_zero :: mailjetAddress where
  "mailjetAddress_zero = \<lparr>mailjetAddress.Name = '''', mailjetAddress.Email = ''''\<rparr>"

definition new_mailgun :: "Configs \<Rightarrow> mailgun" where
  "new_mailgun cfg =
     \<lparr>mailgun.c' = \<lparr>timeOut = RequestTimeout cfg\<rparr>,
      mailgun.configs = cfg,
      mailgun.from' = address_zero,
      mailgun.toList = [],
      mailgun.ccList = [],
      mailgun.bccList = [],
      mailgun.replyTo = address_zero,
      mailgun.subject = '''',
      mailgun.bodyHTML = '''',
      mailgun.bodyText = '''',
      mailgun.attachmentFiles = [],
      mailgun.attachmentInlineFiles = []\<rparr>"

definition new_mailjet :: "Configs \<Rightarrow> mailjet" where
  "new_mailjet cfg =
     \<lparr>mailjet.c' = \<lparr>timeOut = RequestTimeout cfg\<rparr>,
      mailjet.configs = cfg,
      mailjet.from' = mailjetAddress_zero,
      mailjet.toList = [],
      mailjet.ccList = [],
      mailjet.bccList = [],
      mailjet.replyTo = mailjetAddress_zero,
      mailjet.subject = '''',
      mailjet.bodyHTML = '''',
      mailjet.bodyText = '''',
      mailjet.attachmentFiles = [],
      mailjet.attachmentInlineFiles = []\<rparr>"

definition new_sendgrid :: "Configs \<Rightarrow> sendgrid" where
  "new_sendgrid cfg =
     \<lparr>sendgrid.c' = \<lparr>timeOut = RequestTimeout cfg\<rparr>,
      sendgrid.configs = cfg,
      sendgrid.from' = address_zero,
      sendgrid.toList = [],
      sendgrid.ccList = [],
      sendgrid.bccList = [],
      sendgrid.replyTo = address_zero,
      sendgrid.subject = '''',
      sendgrid.bodyHTML = '''',
      sendgrid.bodyText = '''',
      sendgrid.attachmentFiles = [],
      sendgrid.attachmentInlineFiles = [],
      sendgrid.attachmentReaders = [],
      sendgrid.attachmentInlineReaders = [],
      sendgrid.attachments = []\<rparr>"

definition new_postmark :: "Configs \<Rightarrow> postmark" where
  "new_postmark cfg =
     \<lparr>postmark.c' = \<lparr>timeOut = RequestTimeout cfg\<rparr>,
      postmark.configs = cfg,
      postmark.from' = address_zero,
      postmark.toList = [],
      postmark.ccList = [],
      postmark.bccList = [],
      postmark.replyTo = address_zero,
      postmark.subject = '''',
      postmark.bodyHTML = '''',
      postmark.bodyText = '''',
      postmark.attachmentFiles = [],
      postmark.attachmentInlineFiles = [],
      postmark.attachments = []\<rparr>"

definition new_customerio :: "Configs \<Rightarrow> customerio" where
  "new_customerio cfg =
     \<lparr>customerio.c' = \<lparr>timeOut = RequestTimeout cfg\<rparr>,
      customerio.configs = cfg,
      customerio.from' = address_zero,
      customerio.toList = [],
      customerio.ccList = [],
      customerio.bccList = [],
      customerio.replyTo = address_zero,
      customerio.subject = '''',
      customerio.bodyHTML = '''',
      customerio.bodyText = '''',
      customerio.attachmentFiles = [],
      customerio.attachmentInlineFiles = [],
      customerio.attachmentReaders = [],
      customerio.attachmentInlineReaders = [],
      customerio.attachments = []\<rparr>"

definition mailFactory :: "driver \<Rightarrow> Configs \<Rightarrow> error + Mailer" where
  "mailFactory d cfg =
     (if d = MAILGUN then Inr (Mailer_mailgun (new_mailgun cfg))
      else if d = MAILJET then Inr (Mailer_mailjet (new_mailjet cfg))
      else if d = SENDGRID then Inr (Mailer_sendgrid (new_sendgrid cfg))
      else if d = POSTMARK then Inr (Mailer_postmark (new_postmark cfg))
      else if d = CUSTOMERIO then Inr (Mailer_customerio (new_customerio cfg))
      else Inl (errors_New ''gomailer: unsupported mail driver''))"

definition New :: "driver \<Rightarrow> Configs \<Rightarrow> error + Mailer" where
  "New d cfg = mailFactory d cfg"

section \<open>Reading an adapter's state through the interface\<close>

text \<open>
  The fields that the validation rules read, for the adapter behind an interface value.
\<close>

fun sender_email :: "Mailer \<Rightarrow> string" where
  "sender_email (Mailer_mailgun m) = address.Email (mailgun.from' m)"
| "sender_email (Mailer_sendgrid s) = address.Email (sendgrid.from' s)"
| "sender_email (Mailer_postmark p) = address.Email (postmark.from' p)"
| "sender_email (Mailer_mailjet m) = mailjetAddress.Email (mailjet.from' m)"
| "sender_email (Mailer_customerio c) = address.Email (customerio.from' c)"

fun to_count :: "Mailer \<Rightarrow> nat" where
  "to_count (Mailer_mailgun m) = length (mailgun.toList m)"
| "to_count (Mailer_sendgrid s) = length (sendgrid.toList s)"
| "to_count (Mailer_postmark p) = length (postmark.toList p)"
| "to_count (Mailer_mailjet m) = length (mailjet.toList m)"
| "to_count (Mailer_customerio c) = length (customerio.toList c)"

fun recipients :: "Mailer \<Rightarrow> nat" where
  "recipients (Mailer_mailgun m) =
     length (mailgun.toList m) + length (mailgun.ccList m) + length (mailgun.bccList m)"
| "recipients (Mailer_sendgrid s) =
     length (sendgrid.toList s) + length (sendgrid.ccList s) + length (sendgrid.bccList s)"
| "recipients (Mailer_postmark p) =
     length (postmark.toList p) + length (postmark.ccList p) + length (postmark.bccList p)"
| "recipients (Mailer_mailjet m) =
     length (mailjet.toList m) + length (mailjet.ccList m) + length (mailjet.bccList m)"
| "recipients (Mailer_customerio c) =
     length (customerio.toList c) + length (customerio.ccList c) + length (customerio.bccList c)"

fun maxReceipents :: "Mailer \<Rightarrow> nat" where
  "maxReceipents (Mailer_mailgun m) = mailgunMaxReceipents"
| "maxReceipents (Mailer_sendgrid s) = sendgridMaxReceipents"
| "maxReceipents (Mailer_postmark p) = postmarkMaxReceipents"
| "maxReceipents (Mailer_mailjet m) = mailjetMaxReceipents"
| "maxReceipents (Mailer_customerio c) = customerioMaxReceipents"

fun body_text :: "Mailer \<Rightarrow> string" where
  "body_text (Mailer_mailgun m) = mailgun.bodyText m"
| "body_text (Mailer_sendgrid s) = sendgrid.bodyText s"
| "body_text (Mailer_postmark p) = postmark.bodyText p"
| "body_text (Mailer_mailjet m) = mailjet.bodyText m"
| "body_text (Mailer_customerio c) = customerio.bodyText c"

fun body_html :: "Mailer \<Rightarrow> string" where
  "body_html (Mailer_mailgun m) = mailgun.bodyHTML m"
| "body_html (Mailer_sendgrid s) = sendgrid.bodyHTML s"
| "body_html (Mailer_postmark p) = postmark.bodyHTML p"
| "body_html (Mailer_mailjet m) = mailjet.bodyHTML m"
| "body_html (Mailer_customerio c) = customerio.bodyHTML c"

text \<open>
  The credentials that \<^verbatim>\<open>verifyParams\<close> asks for: Postmark one of its two tokens, Mailjet
  both keys, the other three none.
\<close>

fun credentials_present :: "Mailer \<Rightarrow> bool" where
  "credentials_present (Mailer_postmark p) =
     (\<not> (Configs.AccountToken (postmark.configs p) = '''' \<and> Configs.ServerToken (postmark.configs p) = ''''))"
| "credentials_present (Mailer_mailjet m) =
     (\<not> (Configs.PrivateKey (mailjet.configs m) = '''' \<or> Configs.PublicKey (mailjet.configs m) = ''''))"
| "credentials_present _ = True"

text \<open>The adapter's fields as names and addresses, whatever its address type.\<close>

definition address_pair :: "address \<Rightarrow> string \<times> string" where
  "address_pair a = (address.Name a, address.Email a)"

definition mailjetAddress_pair :: "mailjetAddress \<Rightarrow> string \<times> string" where
  "mailjetAddress_pair a = (mailjetAddress.Name a, mailjetAddress.Email a)"

fun get_from :: "Mailer \<Rightarrow> string \<times> string" where
  "get_from (Mailer_mailgun m) = address_pair (mailgun.from' m)"
| "get_from (Mailer_sendgrid s) = address_pair (sendgrid.from' s)"
| "get_from (Mailer_postmark p) = address_pair (postmark.from' p)"
| "get_from (Mailer_mailjet m) = mailjetAddress_pair (mailjet.from' m)"
| "get_from (Mailer_customerio c) = address_pair (customerio.from' c)"

fun get_replyTo :: "Mailer \<Rightarrow> string \<times> string" where
  "get_replyTo (Mailer_mailgun m) = address_pair (mailgun.replyTo m)"
| "get_replyTo (Mailer_sendgrid s) = address_pair (sendgrid.replyTo s)"
| "get_replyTo (Mailer_postmark p) = address_pair (postmark.replyTo p)"
| "get_replyTo (Mailer_mailjet m) = mailjetAddress_pair (mailjet.replyTo m)"
| "get_replyTo (Mailer_customerio c) = address_pair (customerio.replyTo c)"

fun get_toList :: "Mailer \<Rightarrow> (string \<times> string) list" where
  "get_toList (Mailer_mailgun m) = map address_pair (mailgun.toList m)"
| "get_toList (Mailer_sendgrid s) = map address_pair (sendgrid.toList s)"
| "get_toList (Mailer_postmark p) = map address_pair (postmark.toList p)"
| "get_toList (Mailer_mailjet m) = map mailjetAddress_pair (mailjet.toList m)"
| "get_toList (Mailer_customerio c) = map address_pair (customerio.toList c)"

fun get_ccList :: "Mailer \<Rightarrow> (string \<times> string) list" where
  "get_ccList (Mailer_mailgun m) = map address_pair (mailgun.ccList m)"
| "get_ccList (Mailer_sendgrid s) = map address_pair (sendgrid.ccList s)"
| "get_ccList (Mailer_postmark p) = map address_pair (postmark.ccList p)"
| "get_ccList (Mailer_mailjet m) = map mailjetAddress_pair (mailjet.ccList m)"
| "get_ccList (Mailer_customerio c) = map address_pair (customerio.ccList c)"

fun get_bccList :: "Mailer \<Rightarrow> (string \<times> string) list" where
  "get_bccList (Mailer_mailgun m) = map address_pair (mailgun.bccList m)"
| "get_bccList (Mailer_sendgrid s) = map address_pair (sendgrid.bccList s)"
| "get_bccList (Mailer_postmark p) = map address_pair (postmark.bccList p)"
| "get_bccList (Mailer_mailjet m) = map mailjetAddress_pair (mailjet.bccList m)"
| "get_bccList (Mailer_customerio c) = map address_pair (customerio.bccList c)"

fun get_subject :: "Mailer \<Rightarrow> string" where
  "get_subject (Mailer_mailgun m) = mailgun.subject m"
| "get_subject (Mailer_sendgrid s) = sendgrid.subject s"
| "get_subject (Mailer_postmark p) = postmark.subject p"
| "get_subject (Mailer_mailjet m) = mailjet.subject m"
| "get_subject (Mailer_customerio c) = customerio.subject c"

fun get_attachmentFiles :: "Mailer \<Rightarrow> string list" where
  "get_attachmentFiles (Mailer_mailgun m) = mailgun.attachmentFiles m"
| "get_attachmentFiles (Mailer_sendgrid s) = sendgrid.attachmentFiles s"
| "get_attachmentFiles (Mailer_postmark p) = postmark.attachmentFiles p"
| "get_attachmentFiles (Mailer_mailjet m) = mailjet.attachmentFiles m"
| "get_attachmentFiles (Mailer_customerio c) = customerio.attachmentFiles c"

fun get_attachmentInlineFiles :: "Mailer \<Rightarrow> string list" where
  "get_attachmentInlineFiles (Mailer_mailgun m) = mailgun.attachmentInlineFiles m"
| "get_attachmentInlineFiles (Mailer_sendgrid s) = sendgrid.attachmentInlineFiles s"
| "get_attachmentInlineFiles (Mailer_postmark p) = postmark.attachmentInlineFiles p"
| "get_attachmentInlineFiles (Mailer_mailjet m) = mailjet.attachmentInlineFiles m"
| "get_attachmentInlineFiles (Mailer_customerio c) = customerio.attachmentInlineFiles c"

text \<open>Which adapter an interface value holds, as the driver that builds it.\<close>

fun driver_of :: "Mailer \<Rightarrow> driver" where
  "driver_of (Mailer_mailgun m) = MAILGUN"
| "driver_of (Mailer_sendgrid s) = SENDGRID"
| "driver_of (Mailer_postmark p) = POSTMARK"
| "driver_of (Mailer_mailjet m) = MAILJET"
| "driver_of (Mailer_customerio c) = CUSTOMERIO"

section \<open>Concrete inputs\<close>

text \<open>
  A world with two files: \<^verbatim>\<open>docs/hello.txt\<close> holding the two bytes \<^verbatim>\<open>Hi\<close>, and
  \<^verbatim>\<open>report.pdf\<close> of 8,000,000 bytes. Every request is answered with status 200.
\<close>

definition hello_bytes :: "byte list" where
  "hello_bytes = [72, 105]"

definition report_bytes :: "byte list" where
  "report_bytes = replicate 8000000 0"

definition no_such_file :: error where
  "no_such_file = external_error ''no such file or directory''"

definition example_world :: world where
  "example_world =
     \<lparr>os_Stat = (\<lambda>f. if f = ''docs/hello.txt'' then Inr 2
                     else if f = ''report.pdf'' then Inr 8000000
                     else Inl no_such_file),
      ioutil_ReadFile = (\<lambda>f. if f = ''docs/hello.txt'' then Inr hello_bytes
                             else if f = ''report.pdf'' then Inr report_bytes
                             else Inl no_such_file),
      os_Open_Copy_Close = (\<lambda>f. if f = ''docs/hello.txt'' then Inr hello_bytes
                                else if f = ''report.pdf'' then Inr report_bytes
                                else Inl no_such_file),
      mimeTypes = (\<lambda>ext. if ext = ''.txt'' then Some ''text/plain; charset=utf-8''
                         else if ext = ''.pdf'' then Some ''application/pdf''
                         else None),
      multipart_boundary = ''0123456789abcdef'',
      range_inline_first = False,
      http_NewRequest = (\<lambda>u. None),
      http_Do = (\<lambda>cl req. Inr \<lparr>StatusCode = 200, http_response.Body = ''ok'', Body_err = None\<rparr>),
      uuid_New = ''00000000-0000-4000-8000-000000000000'',
      cio_SendEmail = (\<lambda>key req. None)\<rparr>"



definition example_configs :: Configs where
  "example_configs =
     \<lparr>ServerToken = ''server-token'', AccountToken = '''', APIKey = ''key'',
      PrivateKey = ''private'', PublicKey = ''public'', BaseURL = '''',
      Domain = ''mg.example.com'', Username = '''', Password = '''', RequestTimeout = 0\<rparr>"

text \<open>A valid message, built by the setters on the adapter the factory returns.\<close>

definition example_message :: "Mailer \<Rightarrow> Mailer" where
  "example_message M =
     Mailer_BodyText ''hello''
       (Mailer_Subject ''greeting''
         (Mailer_To ''Jane Doe'' ''jane@example.com''
           (Mailer_From ''John Doe'' ''john@example.com'' M)))"

definition example_mailgun :: Mailer where
  "example_mailgun = example_message (Mailer_mailgun (new_mailgun example_configs))"

definition example_sendgrid :: Mailer where
  "example_sendgrid = example_message (Mailer_sendgrid (new_sendgrid example_configs))"

definition example_postmark :: Mailer where
  "example_postmark = example_message (Mailer_postmark (new_postmark example_configs))"

definition example_mailjet :: Mailer where
  "example_mailjet = example_message (Mailer_mailjet (new_mailjet example_configs))"

definition example_customerio :: Mailer where
  "example_customerio = example_message (Mailer_customerio (new_customerio example_configs))"

text \<open>A Mailjet message with one To, 29 Cc and 20 Bcc recipients: 50 in all.\<close>

definition fifty_recipients :: Mailer where
  "fifty_recipients =
     fold (\<lambda>i. Mailer_Cc ''Tom'' ''tom@example.com'') [1 ..< 30]
       (fold (\<lambda>i. Mailer_Bcc ''Jerry'' ''jerry@example.com'') [0 ..< 20] example_mailjet)"

section \<open>The logical message\<close>

text \<open>
  The message an adapter holds, as the data model describes it: what the ten setters
  that every adapter implements write.
\<close>

record message =
  msg_from :: "string \<times> string"
  msg_to :: "(string \<times> string) list"
  msg_cc :: "(string \<times> string) list"
  msg_bcc :: "(string \<times> string) list"
  msg_replyTo :: "string \<times> string"
  msg_subject :: string
  msg_bodyHTML :: string
  msg_bodyText :: string
  msg_attachmentFiles :: "string list"
  msg_attachmentInlineFiles :: "string list"

definition message_of :: "Mailer \<Rightarrow> message" where
  "message_of M =
     \<lparr>msg_from = get_from M, msg_to = get_toList M, msg_cc = get_ccList M,
      msg_bcc = get_bccList M, msg_replyTo = get_replyTo M, msg_subject = get_subject M,
      msg_bodyHTML = body_html M, msg_bodyText = body_text M,
      msg_attachmentFiles = get_attachmentFiles M,
      msg_attachmentInlineFiles = get_attachmentInlineFiles M\<rparr>"

text \<open>A Mailgun message with an attachment, for an account whose domain is not configured.\<close>

definition mailgun_state_without_domain :: mailgun where
  "mailgun_state_without_domain =
     mailgun_AttachmentFile ''docs/hello.txt''
       (mailgun_BodyText ''hello''
         (mailgun_To ''Jane Doe'' ''jane@example.com''
           (mailgun_From ''John Doe'' ''john@example.com''
             (new_mailgun (example_configs\<lparr>Domain := ''''\<rparr>)))))"

definition mailgun_without_domain :: Mailer where
  "mailgun_without_domain = Mailer_mailgun mailgun_state_without_domain"

text \<open>Postmark without a token, Mailjet without its private key.\<close>

definition postmark_without_token :: postmark where
  "postmark_without_token = new_postmark (example_configs\<lparr>ServerToken := ''''\<rparr>)"

definition mailjet_without_key :: mailjet where
  "mailjet_without_key = new_mailjet (example_configs\<lparr>PrivateKey := ''''\<rparr>)"

text \<open>A Customer.io message with a Cc and a Bcc recipient.\<close>

definition customerio_cc_bcc :: customerio where
  "customerio_cc_bcc =
     customerio_Bcc ''Jerry'' ''jerry@example.com''
       (customerio_Cc ''Tom'' ''tom@example.com''
         (customerio_BodyText ''hello''
           (customerio_To ''Jane Doe'' ''jane@example.com''
             (customerio_From ''John Doe'' ''john@example.com'' (new_customerio example_configs)))))"











section \<open>Properties of the loops\<close>

lemma andThen_Inl [simp]: "andThen (Inl e, tr) k = (Returned (Some e), tr)"
  by (simp add: andThen_def)

lemma andThen_Inr [simp]: "andThen (Inr v, tr) k = (fst (k v), tr @ snd (k v))"
  by (simp add: andThen_def split: prod.splits)

lemma andThen_cases:
  assumes "andThen step k = (out, tr)"
  shows "(\<exists>e. step = (Inl e, tr) \<and> out = Returned (Some e))
         \<or> (\<exists>v tr1 tr2. step = (Inr v, tr1) \<and> k v = (out, tr2) \<and> tr = tr1 @ tr2)"
  using assms by (auto simp: andThen_def split: prod.splits sum.splits)

text \<open>None of the loops over files and readers talks to the network.\<close>

lemma totalFileSize_no_network:
  "totalFileSize w fs t = (res, tr) \<Longrightarrow> filter is_network tr = []"
  by (induction fs arbitrary: t res tr) (auto split: sum.splits prod.splits)

lemma readFiles_no_network:
  "readFiles w fin fs = (res, tr) \<Longrightarrow> filter is_network tr = []"
  by (induction fs arbitrary: res tr) (auto split: sum.splits prod.splits)

lemma readReaders_no_network:
  "readReaders w fin rs = (res, tr) \<Longrightarrow> filter is_network tr = []"
  by (induction rs arbitrary: res tr) (auto split: sum.splits prod.splits)

lemma mailgun_formFiles_no_network:
  "mailgun_formFiles w n i fs = (res, tr) \<Longrightarrow> filter is_network tr = []"
  by (induction fs arbitrary: i res tr) (auto split: sum.splits prod.splits)

lemma mailgun_allFormFiles_no_network:
  "mailgun_allFormFiles w files = (res, tr) \<Longrightarrow> filter is_network tr = []"
proof (induction files arbitrary: res tr)
  case Nil
  then show ?case by simp
next
  case (Cons a files)
  obtain n fs where a: "a = (n, fs)" by (cases a)
  show ?case
    using Cons mailgun_formFiles_no_network [of w n 0 fs]
    by (auto simp: a split: sum.splits prod.splits)
qed

section \<open>Validation\<close>

lemma verifyParams_None_iff:
  "(verifyParams M = None) =
     (credentials_present M \<and> sender_email M \<noteq> '''' \<and> 0 < to_count M
      \<and> recipients M \<le> maxReceipents M \<and> \<not> (body_text M = '''' \<and> body_html M = ''''))"
  by (cases M)
     (auto simp: mailgun_verifyParams_def sendgrid_verifyParams_def postmark_verifyParams_def
        mailjet_verifyParams_def customerio_verifyParams_def)

lemma Send_verifyParams_Some:
  "verifyParams M = Some msg \<Longrightarrow> Send w M = (Panic msg, [])"
  by (cases M)
     (simp_all add: mailgun_Send_def sendgrid_Send_def postmark_Send_def mailjet_Send_def
        customerio_Send_def)

text \<open>
  C2. The recipient ceiling is exact for every provider: the ceiling is 50 for Postmark and
  Mailjet and 1000 for Mailgun, SendGrid and Customer.io; a message with more recipients
  (to, cc and bcc together) than the ceiling fails validation; and a message that meets
  the other rules of validation passes it exactly when its recipient count is at most the
  ceiling, in particular when the count equals the ceiling.
\<close>

theorem recipient_ceiling_exact:
  "maxReceipents M = (if driver_of M = POSTMARK \<or> driver_of M = MAILJET then 50 else 1000)
   \<and> (maxReceipents M < recipients M \<longrightarrow> verifyParams M \<noteq> None)
   \<and> (credentials_present M \<and> sender_email M \<noteq> '''' \<and> 0 < to_count M
        \<and> \<not> (body_text M = '''' \<and> body_html M = '''')
       \<longrightarrow> (recipients M = maxReceipents M \<longrightarrow> verifyParams M = None)
           \<and> ((verifyParams M = None) = (recipients M \<le> maxReceipents M)))"
proof -
  have "maxReceipents M = (if driver_of M = POSTMARK \<or> driver_of M = MAILJET then 50 else 1000)"
    by (cases M)
       (simp_all add: mailgunMaxReceipents_def sendgridMaxReceipents_def postmarkMaxReceipents_def
          mailjetMaxReceipents_def customerioMaxReceipents_def MAILGUN_def SENDGRID_def
          POSTMARK_def MAILJET_def CUSTOMERIO_def)
  then show ?thesis
    using verifyParams_None_iff [of M] by auto
qed

theorem recipient_ceiling_exact_witness:
  "recipients fifty_recipients = 50
   \<and> verifyParams fifty_recipients = None
   \<and> recipients (Mailer_To ''One'' ''more@example.com'' fifty_recipients) = 51
   \<and> verifyParams (Mailer_To ''One'' ''more@example.com'' fifty_recipients) \<noteq> None"
proof -
  have a: "credentials_present fifty_recipients" by code_simp
  have b: "sender_email fifty_recipients \<noteq> ''''" by code_simp
  have c: "0 < to_count fifty_recipients" by code_simp
  have d: "\<not> (body_text fifty_recipients = '''' \<and> body_html fifty_recipients = '''')" by code_simp
  have e: "recipients fifty_recipients = 50" by code_simp
  have f: "maxReceipents fifty_recipients = 50" by code_simp
  have g: "recipients (Mailer_To ''One'' ''more@example.com'' fifty_recipients) = 51" by code_simp
  have h: "maxReceipents (Mailer_To ''One'' ''more@example.com'' fifty_recipients) = 50" by code_simp
  from recipient_ceiling_exact [of fifty_recipients] a b c d e f
  have "verifyParams fifty_recipients = None" by simp
  moreover from recipient_ceiling_exact [of "Mailer_To ''One'' ''more@example.com'' fifty_recipients"] g h
  have "verifyParams (Mailer_To ''One'' ''more@example.com'' fifty_recipients) \<noteq> None" by simp
  ultimately show ?thesis using e g by simp
qed

text \<open>
  C4. For every provider, when the sender address is not set, or there is no To recipient,
  or both bodies are empty, validation fails and Send panics with the message of the rule
  that failed: it does not return an error, and it has made no call to the file system or
  the network.
\<close>

theorem invalid_message_panics_before_any_call:
  assumes "sender_email M = '''' \<or> to_count M = 0 \<or> (body_text M = '''' \<and> body_html M = '''')"
  shows "\<exists>msg. verifyParams M = Some msg \<and> Send w M = (Panic msg, [])"
proof -
  from assms have "verifyParams M \<noteq> None"
    using verifyParams_None_iff [of M] by auto
  then obtain msg where msg: "verifyParams M = Some msg" by auto
  then have "Send w M = (Panic msg, [])" by (rule Send_verifyParams_Some)
  with msg show ?thesis by blast
qed

theorem invalid_message_panics_before_any_call_witness:
  "sender_email (Mailer_From ''John Doe'' '''' example_sendgrid) = ''''
   \<and> Send example_world (Mailer_From ''John Doe'' '''' example_sendgrid)
       = (Panic ''gomailer: you must provide from'', [])"
proof -
  have a: "sender_email (Mailer_From ''John Doe'' '''' example_sendgrid) = ''''" by code_simp
  have b: "verifyParams (Mailer_From ''John Doe'' '''' example_sendgrid)
             = Some ''gomailer: you must provide from''" by code_simp
  from invalid_message_panics_before_any_call [of "Mailer_From ''John Doe'' '''' example_sendgrid" example_world] a b
  show ?thesis by auto
qed

section \<open>The factory\<close>

text \<open>
  C10. The factory returns the Mailgun, SendGrid, Postmark, Mailjet or Customer.io adapter
  for that provider's driver constant, holding the given configuration and an empty
  message, and for any other driver value it fails with the error
  \<^verbatim>\<open>gomailer: unsupported mail driver\<close>.
\<close>

theorem mailFactory_adapter_or_unsupported:
  "mailFactory MAILGUN cfg = Inr (Mailer_mailgun (new_mailgun cfg))
   \<and> mailFactory SENDGRID cfg = Inr (Mailer_sendgrid (new_sendgrid cfg))
   \<and> mailFactory POSTMARK cfg = Inr (Mailer_postmark (new_postmark cfg))
   \<and> mailFactory MAILJET cfg = Inr (Mailer_mailjet (new_mailjet cfg))
   \<and> mailFactory CUSTOMERIO cfg = Inr (Mailer_customerio (new_customerio cfg))
   \<and> (d \<notin> {MAILGUN, SENDGRID, POSTMARK, MAILJET, CUSTOMERIO}
        \<longrightarrow> mailFactory d cfg = Inl (errors_New ''gomailer: unsupported mail driver''))
   \<and> (\<forall>M. mailFactory d cfg = Inr M \<longrightarrow> driver_of M = d)
   \<and> New d cfg = mailFactory d cfg"
  by (auto simp: mailFactory_def New_def MAILGUN_def SENDGRID_def POSTMARK_def MAILJET_def
        CUSTOMERIO_def)

theorem mailFactory_adapter_or_unsupported_witness:
  "(0::driver) \<notin> {MAILGUN, SENDGRID, POSTMARK, MAILJET, CUSTOMERIO}
   \<and> mailFactory 0 example_configs = Inl (errors_New ''gomailer: unsupported mail driver'')
   \<and> mailFactory 7 example_configs = Inl (errors_New ''gomailer: unsupported mail driver'')
   \<and> driver_of (Mailer_postmark (new_postmark example_configs)) = POSTMARK"
  using mailFactory_adapter_or_unsupported [of example_configs 0]
        mailFactory_adapter_or_unsupported [of example_configs 7]
        mailFactory_adapter_or_unsupported [of example_configs POSTMARK]
  by (simp add: MAILGUN_def SENDGRID_def POSTMARK_def MAILJET_def CUSTOMERIO_def)
section \<open>Base64\<close>

lemma distinct_encodeStd: "distinct encodeStd"
  by (simp add: encodeStd_def)

lemma length_encodeStd: "length encodeStd = 64"
  by (simp add: encodeStd_def)

lemma takeWhile_neq_nth:
  "distinct xs \<Longrightarrow> i < length xs \<Longrightarrow> takeWhile (\<lambda>x. x \<noteq> xs ! i) xs = take i xs"
proof (induction xs arbitrary: i)
  case Nil
  then show ?case by simp
next
  case (Cons a xs)
  show ?case
  proof (cases i)
    case 0
    then show ?thesis by simp
  next
    case (Suc j)
    with Cons.prems have "a \<noteq> xs ! j" by auto
    with Cons Suc show ?thesis by simp
  qed
qed

lemma decode_encode_digit: "decode_digit (encode_digit i) = Some (i mod 64)"
proof -
  have lt: "i mod 64 < length encodeStd" by (simp add: length_encodeStd)
  then have mem: "encodeStd ! (i mod 64) \<in> set encodeStd" by simp
  have "takeWhile (\<lambda>x. x \<noteq> encodeStd ! (i mod 64)) encodeStd = take (i mod 64) encodeStd"
    using distinct_encodeStd lt by (rule takeWhile_neq_nth)
  with lt mem show ?thesis
    by (simp add: decode_digit_def encode_digit_def)
qed

lemma encode_digit_not_pad: "encode_digit i \<noteq> CHR ''=''"
proof -
  have "CHR ''='' \<notin> set encodeStd" by (simp add: encodeStd_def)
  moreover have "encode_digit i \<in> set encodeStd"
    by (simp add: encode_digit_def length_encodeStd)
  ultimately show ?thesis by metis
qed

lemma unat_byte_less: "unat (b::byte) < 256"
  using unsigned_less [of b, where 'a = nat] by simp

lemma byte_of_nat_eq: "n mod 256 = unat (b::byte) \<Longrightarrow> (of_nat n :: byte) = b"
proof -
  assume h: "n mod 256 = unat b"
  have "(of_nat n :: byte) = of_nat (unat b)"
    unfolding word_of_nat_eq_iff using h unat_byte_less [of b]
    by (simp add: take_bit_eq_mod)
  then show ?thesis by simp
qed

lemma recombine:
  fixes v :: nat
  shows "v div 262144 mod 64 * 262144 + v div 4096 mod 64 * 4096 + v div 64 mod 64 * 64 + v mod 64
         = v mod 16777216"
proof -
  have a: "v mod (64 * 64) = 64 * (v div 64 mod 64) + v mod 64"
    by (rule mod_mult2_eq)
  have b: "v mod (4096 * 64) = 4096 * (v div 4096 mod 64) + v mod 4096"
    by (rule mod_mult2_eq)
  have c: "v mod (262144 * 64) = 262144 * (v div 262144 mod 64) + v mod 262144"
    by (rule mod_mult2_eq)
  from a b c show ?thesis by simp
qed

lemma val_bytes:
  fixes a b c :: nat
  assumes "a < 256" "b < 256" "c < 256"
  shows "(a * 65536 + b * 256 + c) div 65536 mod 256 = a"
    and "(a * 65536 + b * 256 + c) div 256 mod 256 = b"
    and "(a * 65536 + b * 256 + c) mod 256 = c"
    and "a * 65536 + b * 256 + c < 16777216"
proof -
  have e1: "a * 65536 + b * 256 + c = (b * 256 + c) + a * 65536" by simp
  have e2: "a * 65536 + b * 256 + c = c + (a * 256 + b) * 256" by simp
  have e3: "a * 256 + b = b + a * 256" by simp
  have lt: "b * 256 + c < 65536" using assms by simp
  have "((b * 256 + c) + a * 65536) div 65536 = a + (b * 256 + c) div 65536"
    by (rule div_mult_self1) simp
  with lt have "(a * 65536 + b * 256 + c) div 65536 = a"
    by (simp only: e1 div_less add_0_right)
  with assms(1) show "(a * 65536 + b * 256 + c) div 65536 mod 256 = a"
    by (simp only: mod_less)
  have "(c + (a * 256 + b) * 256) div 256 = (a * 256 + b) + c div 256"
    by (rule div_mult_self1) simp
  with assms(3) have d: "(a * 65536 + b * 256 + c) div 256 = b + a * 256"
    by (simp only: e2 e3 div_less add_0_right)
  have "(b + a * 256) mod 256 = b mod 256" by (rule mod_mult_self1)
  with assms(2) show "(a * 65536 + b * 256 + c) div 256 mod 256 = b"
    by (simp only: d mod_less)
  have "(c + (a * 256 + b) * 256) mod 256 = c mod 256" by (rule mod_mult_self1)
  with assms(3) show "(a * 65536 + b * 256 + c) mod 256 = c"
    by (simp only: e2 mod_less)
  show "a * 65536 + b * 256 + c < 16777216" using assms by simp
qed

lemma recombine2:
  fixes v :: nat
  assumes "v mod 64 = 0"
  shows "v div 262144 mod 64 * 262144 + v div 4096 mod 64 * 4096 + v div 64 mod 64 * 64
         = v mod 16777216"
  using recombine [of v] assms by simp

lemma recombine1:
  fixes v :: nat
  assumes "v mod 4096 = 0"
  shows "v div 262144 mod 64 * 262144 + v div 4096 mod 64 * 4096 = v mod 16777216"
proof -
  have "v mod (64 * 64) = 64 * (v div 64 mod 64) + v mod 64"
    by (rule mod_mult2_eq)
  with assms have "v div 64 mod 64 = 0" "v mod 64 = 0" by simp_all
  with recombine [of v] show ?thesis by simp
qed

lemma decode_group3:
  fixes b0 b1 b2 :: byte
  defines "v \<equiv> unat b0 * 65536 + unat b1 * 256 + unat b2"
  defines "w \<equiv> v div 262144 mod 64 * 262144 + v div 4096 mod 64 * 4096 + v div 64 mod 64 * 64 + v mod 64"
  shows "(of_nat (w div 65536) :: byte) = b0" "(of_nat (w div 256) :: byte) = b1" "(of_nat w :: byte) = b2"
proof -
  note vb = val_bytes [OF unat_byte_less [of b0] unat_byte_less [of b1] unat_byte_less [of b2]]
  have "w = v mod 16777216" unfolding w_def by (rule recombine)
  with vb(4) have wv: "w = v" by (simp add: v_def)
  show "(of_nat (w div 65536) :: byte) = b0"
    by (rule byte_of_nat_eq) (simp only: wv v_def vb(1))
  show "(of_nat (w div 256) :: byte) = b1"
    by (rule byte_of_nat_eq) (simp only: wv v_def vb(2))
  show "(of_nat w :: byte) = b2"
    by (rule byte_of_nat_eq) (simp only: wv v_def vb(3))
qed

lemma decode_group2:
  fixes b0 b1 :: byte
  defines "v \<equiv> unat b0 * 65536 + unat b1 * 256"
  defines "w \<equiv> v div 262144 mod 64 * 262144 + v div 4096 mod 64 * 4096 + v div 64 mod 64 * 64"
  shows "(of_nat (w div 65536) :: byte) = b0" "(of_nat (w div 256) :: byte) = b1"
proof -
  have z: "(0::nat) < 256" by simp
  note vb = val_bytes [OF unat_byte_less [of b0] unat_byte_less [of b1] z]
  have "v = (unat b0 * 1024 + unat b1 * 4) * 64" by (simp add: v_def)
  then have "v mod 64 = 0" by (simp only: mod_mult_self2_is_0)
  then have "w = v mod 16777216" unfolding w_def by (rule recombine2)
  moreover have "v < 16777216" using vb(4) by (simp add: v_def)
  ultimately have wv: "w = v" by simp
  have "w div 65536 mod 256 = unat b0" using vb(1) by (simp add: wv v_def)
  then show "(of_nat (w div 65536) :: byte) = b0" by (rule byte_of_nat_eq)
  have "w div 256 mod 256 = unat b1" using vb(2) by (simp add: wv v_def)
  then show "(of_nat (w div 256) :: byte) = b1" by (rule byte_of_nat_eq)
qed

lemma decode_group1:
  fixes b0 :: byte
  defines "v \<equiv> unat b0 * 65536"
  defines "w \<equiv> v div 262144 mod 64 * 262144 + v div 4096 mod 64 * 4096"
  shows "(of_nat (w div 65536) :: byte) = b0"
proof -
  have z: "(0::nat) < 256" by simp
  note vb = val_bytes [OF unat_byte_less [of b0] z z]
  have "v = (unat b0 * 16) * 4096" by (simp add: v_def)
  then have "v mod 4096 = 0" by (simp only: mod_mult_self2_is_0)
  then have "w = v mod 16777216" unfolding w_def by (rule recombine1)
  moreover have "v < 16777216" using vb(4) by (simp add: v_def)
  ultimately have wv: "w = v" by simp
  have "w div 65536 mod 256 = unat b0" using vb(1) by (simp add: wv v_def)
  then show "(of_nat (w div 65536) :: byte) = b0" by (rule byte_of_nat_eq)
qed

lemma DecodeString_EncodeToString: "DecodeString (EncodeToString bs) = Some bs"
proof (induction bs rule: EncodeToString.induct)
  case 1
  then show ?case by simp
next
  case (2 b0)
  show ?case
    using decode_group1 [of b0]
    by (simp add: decode_encode_digit encode_digit_not_pad Let_def)
next
  case (3 b0 b1)
  show ?case
    using decode_group2 [of b0 b1]
    by (simp add: decode_encode_digit encode_digit_not_pad Let_def)
next
  case (4 b0 b1 b2 src)
  show ?case
    using decode_group3 [of b0 b1 b2] 4
    by (simp add: decode_encode_digit encode_digit_not_pad Let_def)
qed

section \<open>Attachment resolution\<close>

lemma filepath_Base_last_element:
  assumes "name \<noteq> ''''" "CHR ''/'' \<notin> set name"
  shows "filepath_Base (dir @ ''/'' @ name) = name" "filepath_Base name = name"
proof -
  have "hd (rev name) \<in> set name"
    using assms(1) by (metis hd_in_set rev_is_Nil_conv set_rev)
  with assms(2) have h: "hd (rev name) \<noteq> CHR ''/''" by auto
  have dw: "dropWhile (\<lambda>ch. ch = CHR ''/'') (rev name @ ys) = rev name @ ys" for ys
    using assms(1) h by (cases "rev name") auto
  have tw: "takeWhile (\<lambda>ch. ch \<noteq> CHR ''/'') (rev name @ ys)
              = rev name @ takeWhile (\<lambda>ch. ch \<noteq> CHR ''/'') ys" for ys
    using assms(2) by (intro takeWhile_append2) auto
  have 1: "rev (dir @ ''/'' @ name) = rev name @ (CHR ''/'' # rev dir)" by simp
  have 2: "rev name = rev name @ []" by simp
  show "filepath_Base (dir @ ''/'' @ name) = name"
    unfolding filepath_Base_def Let_def 1 dw rev_rev_ident
    unfolding 1 tw using assms(1) by simp
  have dn: "dropWhile (\<lambda>ch. ch = CHR ''/'') (rev name) = rev name"
    using dw [of "[]"] by simp
  have tn: "takeWhile (\<lambda>ch. ch \<noteq> CHR ''/'') (rev name) = rev name"
    using tw [of "[]"] by simp
  show "filepath_Base name = name"
    unfolding filepath_Base_def Let_def dn rev_rev_ident tn using assms(1) by simp
qed

lemma filepath_Ext_last_dot:
  assumes "CHR ''.'' \<notin> set ext" "CHR ''/'' \<notin> set ext"
  shows "filepath_Ext (stem @ ''.'' @ ext) = ''.'' @ ext"
proof -
  have a: "takeWhile (\<lambda>ch. ch \<noteq> CHR ''/'') (rev ext @ ys)
             = rev ext @ takeWhile (\<lambda>ch. ch \<noteq> CHR ''/'') ys" for ys
    using assms(2) by (intro takeWhile_append2) auto
  have b: "takeWhile (\<lambda>ch. ch \<noteq> CHR ''.'') (rev ext @ ys)
             = rev ext @ takeWhile (\<lambda>ch. ch \<noteq> CHR ''.'') ys" for ys
    using assms(1) by (intro takeWhile_append2) auto
  have 1: "rev (stem @ ''.'' @ ext) = rev ext @ (CHR ''.'' # rev stem)" by simp
  show ?thesis
    unfolding filepath_Ext_def Let_def 1 a
    by (simp add: b)
qed

text \<open>
  C7. When the file at a path can be read, resolving it as an attachment succeeds: the
  content is a base64 string that decodes to exactly the bytes of the file, the file name
  is the base of the path (its last element: what follows the last separator), the MIME
  type is the one the extension of the path has in the MIME table and is empty when it has
  none, and the content ID equals the file name. When the file cannot be read, the
  resolution fails with the error of the read.
\<close>

theorem ReadFromFile_resolves_attachment:
  "(ioutil_ReadFile w path = Inr b \<longrightarrow>
      (\<exists>a'. ReadFromFile w path a = Inr a'
         \<and> DecodeString (attachment.Content a') = Some b
         \<and> attachment.FileName a' = filepath_Base path
         \<and> attachment.Type a' = (case mimeTypes w (filepath_Ext path) of Some t \<Rightarrow> t | None \<Rightarrow> '''')
         \<and> attachment.ContentID a' = attachment.FileName a'))
   \<and> (ioutil_ReadFile w path = Inl err \<longrightarrow> ReadFromFile w path a = Inl err)
   \<and> (name \<noteq> '''' \<and> CHR ''/'' \<notin> set name \<longrightarrow>
        filepath_Base (dir @ ''/'' @ name) = name \<and> filepath_Base name = name)
   \<and> (CHR ''.'' \<notin> set ext \<and> CHR ''/'' \<notin> set ext \<longrightarrow>
        filepath_Ext (stem @ ''.'' @ ext) = ''.'' @ ext)"
proof (intro conjI impI)
  assume "ioutil_ReadFile w path = Inr b"
  then show "\<exists>a'. ReadFromFile w path a = Inr a'
         \<and> DecodeString (attachment.Content a') = Some b
         \<and> attachment.FileName a' = filepath_Base path
         \<and> attachment.Type a' = (case mimeTypes w (filepath_Ext path) of Some t \<Rightarrow> t | None \<Rightarrow> '''')
         \<and> attachment.ContentID a' = attachment.FileName a'"
    by (simp add: ReadFromFile_def Let_def DecodeString_EncodeToString mime_TypeByExtension_def)
next
  assume "ioutil_ReadFile w path = Inl err"
  then show "ReadFromFile w path a = Inl err"
    by (simp add: ReadFromFile_def)
next
  assume "name \<noteq> '''' \<and> CHR ''/'' \<notin> set name"
  then show "filepath_Base (dir @ ''/'' @ name) = name"
    using filepath_Base_last_element(1) [of name dir] by blast
next
  assume "name \<noteq> '''' \<and> CHR ''/'' \<notin> set name"
  then show "filepath_Base name = name"
    using filepath_Base_last_element(2) [of name] by blast
next
  assume "CHR ''.'' \<notin> set ext \<and> CHR ''/'' \<notin> set ext"
  then show "filepath_Ext (stem @ ''.'' @ ext) = ''.'' @ ext"
    using filepath_Ext_last_dot [of ext stem] by blast
qed

theorem ReadFromFile_resolves_attachment_witness:
  "ioutil_ReadFile example_world ''docs/hello.txt'' = Inr hello_bytes
   \<and> ReadFromFile example_world ''docs/hello.txt'' attachment_zero
       = Inr \<lparr>attachment.Content = ''SGk='', attachment.Type = ''text/plain; charset=utf-8'',
              attachment.FileName = ''hello.txt'', attachment.ContentID = ''hello.txt'',
              attachment.Disposition = '''', attachment.Size = 0\<rparr>
   \<and> DecodeString ''SGk='' = Some hello_bytes
   \<and> filepath_Base (''docs'' @ ''/'' @ ''hello.txt'') = ''hello.txt''
   \<and> filepath_Ext (''docs/hello'' @ ''.'' @ ''txt'') = ''.txt''
   \<and> ioutil_ReadFile example_world ''missing.txt'' = Inl no_such_file
   \<and> ReadFromFile example_world ''missing.txt'' attachment_zero = Inl no_such_file"
proof -
  have r: "ioutil_ReadFile example_world ''docs/hello.txt'' = Inr hello_bytes"
    by (simp add: example_world_def)
  have m: "ioutil_ReadFile example_world ''missing.txt'' = Inl no_such_file"
    by (simp add: example_world_def)
  have enc: "EncodeToString hello_bytes = ''SGk=''"
    by (simp add: hello_bytes_def encode_digit_def encodeStd_def)
  have v: "ReadFromFile example_world ''docs/hello.txt'' attachment_zero
       = Inr \<lparr>attachment.Content = ''SGk='', attachment.Type = ''text/plain; charset=utf-8'',
              attachment.FileName = ''hello.txt'', attachment.ContentID = ''hello.txt'',
              attachment.Disposition = '''', attachment.Size = 0\<rparr>"
    by (simp add: ReadFromFile_def example_world_def enc filepath_Base_def filepath_Ext_def
          mime_TypeByExtension_def attachment_zero_def Let_def)
  note t = ReadFromFile_resolves_attachment
         [where w = example_world and path = "''docs/hello.txt''" and b = hello_bytes
            and a = attachment_zero and name = "''hello.txt''" and dir = "''docs''"
            and ext = "''txt''" and stem = "''docs/hello''"]
  from t r v have d: "DecodeString ''SGk='' = Some hello_bytes" by simp
  from t have p: "filepath_Base (''docs'' @ ''/'' @ ''hello.txt'') = ''hello.txt''"
    and x: "filepath_Ext (''docs/hello'' @ ''.'' @ ''txt'') = ''.txt''" by simp_all
  from ReadFromFile_resolves_attachment
         [where w = example_world and path = "''missing.txt''" and err = no_such_file
            and a = attachment_zero] m
  have e: "ReadFromFile example_world ''missing.txt'' attachment_zero = Inl no_such_file" by simp
  from r m v d e p x show ?thesis by simp
qed
section \<open>The setters\<close>

lemmas setter_defs =
  mailgun_From_def mailgun_To_def mailgun_Cc_def mailgun_Bcc_def mailgun_ReplyTo_def
  mailgun_Subject_def mailgun_BodyHTML_def mailgun_BodyText_def mailgun_AttachmentFile_def
  mailgun_AttachmentInlineFile_def
  sendgrid_From_def sendgrid_To_def sendgrid_Cc_def sendgrid_Bcc_def sendgrid_ReplyTo_def
  sendgrid_Subject_def sendgrid_BodyHTML_def sendgrid_BodyText_def sendgrid_AttachmentFile_def
  sendgrid_AttachmentInlineFile_def
  postmark_From_def postmark_To_def postmark_Cc_def postmark_Bcc_def postmark_ReplyTo_def
  postmark_Subject_def postmark_BodyHTML_def postmark_BodyText_def postmark_AttachmentFile_def
  postmark_AttachmentInlineFile_def
  mailjet_From_def mailjet_To_def mailjet_Cc_def mailjet_Bcc_def mailjet_ReplyTo_def
  mailjet_Subject_def mailjet_BodyHTML_def mailjet_BodyText_def mailjet_AttachmentFile_def
  mailjet_AttachmentInlineFile_def
  customerio_From_def customerio_To_def customerio_Cc_def customerio_Bcc_def customerio_ReplyTo_def
  customerio_Subject_def customerio_BodyHTML_def customerio_BodyText_def
  customerio_AttachmentFile_def customerio_AttachmentInlineFile_def

lemma message_of_From:
  "message_of (Mailer_From name email M) = (message_of M)\<lparr>msg_from := (name, email)\<rparr>"
  by (cases M) (simp_all add: message_of_def setter_defs address_pair_def mailjetAddress_pair_def)

lemma message_of_To:
  "message_of (Mailer_To name email M) = (message_of M)\<lparr>msg_to := msg_to (message_of M) @ [(name, email)]\<rparr>"
  by (cases M) (simp_all add: message_of_def setter_defs address_pair_def mailjetAddress_pair_def)

lemma message_of_Cc:
  "message_of (Mailer_Cc name email M) = (message_of M)\<lparr>msg_cc := msg_cc (message_of M) @ [(name, email)]\<rparr>"
  by (cases M) (simp_all add: message_of_def setter_defs address_pair_def mailjetAddress_pair_def)

lemma message_of_Bcc:
  "message_of (Mailer_Bcc name email M) = (message_of M)\<lparr>msg_bcc := msg_bcc (message_of M) @ [(name, email)]\<rparr>"
  by (cases M) (simp_all add: message_of_def setter_defs address_pair_def mailjetAddress_pair_def)

lemma message_of_ReplyTo:
  "message_of (Mailer_ReplyTo name email M) = (message_of M)\<lparr>msg_replyTo := (name, email)\<rparr>"
  by (cases M) (simp_all add: message_of_def setter_defs address_pair_def mailjetAddress_pair_def)

lemma message_of_Subject:
  "message_of (Mailer_Subject sub M) = (message_of M)\<lparr>msg_subject := sub\<rparr>"
  by (cases M) (simp_all add: message_of_def setter_defs)

lemma message_of_BodyHTML:
  "message_of (Mailer_BodyHTML html M) = (message_of M)\<lparr>msg_bodyHTML := html\<rparr>"
  by (cases M) (simp_all add: message_of_def setter_defs)

lemma message_of_BodyText:
  "message_of (Mailer_BodyText text M) = (message_of M)\<lparr>msg_bodyText := text\<rparr>"
  by (cases M) (simp_all add: message_of_def setter_defs)

lemma message_of_AttachmentFile:
  "message_of (Mailer_AttachmentFile file M)
     = (message_of M)\<lparr>msg_attachmentFiles := msg_attachmentFiles (message_of M) @ [file]\<rparr>"
  by (cases M) (simp_all add: message_of_def setter_defs)

lemma message_of_AttachmentInlineFile:
  "message_of (Mailer_AttachmentInlineFile file M)
     = (message_of M)\<lparr>msg_attachmentInlineFiles := msg_attachmentInlineFiles (message_of M) @ [file]\<rparr>"
  by (cases M) (simp_all add: message_of_def setter_defs)

lemma driver_of_setters:
  "driver_of (Mailer_From name email M) = driver_of M"
  "driver_of (Mailer_To name email M) = driver_of M"
  "driver_of (Mailer_Cc name email M) = driver_of M"
  "driver_of (Mailer_Bcc name email M) = driver_of M"
  "driver_of (Mailer_ReplyTo name email M) = driver_of M"
  "driver_of (Mailer_Subject sub M) = driver_of M"
  "driver_of (Mailer_BodyHTML html M) = driver_of M"
  "driver_of (Mailer_BodyText text M) = driver_of M"
  "driver_of (Mailer_AttachmentFile file M) = driver_of M"
  "driver_of (Mailer_AttachmentInlineFile file M) = driver_of M"
  by (cases M; simp)+

lemma overwrite_setters:
  "Mailer_From name email (Mailer_From name0 email0 M) = Mailer_From name email M"
  "Mailer_ReplyTo name email (Mailer_ReplyTo name0 email0 M) = Mailer_ReplyTo name email M"
  "Mailer_Subject sub (Mailer_Subject sub0 M) = Mailer_Subject sub M"
  "Mailer_BodyHTML html (Mailer_BodyHTML html0 M) = Mailer_BodyHTML html M"
  "Mailer_BodyText text (Mailer_BodyText text0 M) = Mailer_BodyText text M"
  by (cases M; simp add: setter_defs)+

lemma fold_To:
  "message_of (fold (\<lambda>(name, email). Mailer_To name email) xs M)
     = (message_of M)\<lparr>msg_to := msg_to (message_of M) @ xs\<rparr>"
  by (induction xs arbitrary: M) (auto simp: message_of_To)

lemma fold_Cc:
  "message_of (fold (\<lambda>(name, email). Mailer_Cc name email) xs M)
     = (message_of M)\<lparr>msg_cc := msg_cc (message_of M) @ xs\<rparr>"
  by (induction xs arbitrary: M) (auto simp: message_of_Cc)

lemma fold_Bcc:
  "message_of (fold (\<lambda>(name, email). Mailer_Bcc name email) xs M)
     = (message_of M)\<lparr>msg_bcc := msg_bcc (message_of M) @ xs\<rparr>"
  by (induction xs arbitrary: M) (auto simp: message_of_Bcc)

lemma fold_AttachmentFile:
  "message_of (fold Mailer_AttachmentFile fs M)
     = (message_of M)\<lparr>msg_attachmentFiles := msg_attachmentFiles (message_of M) @ fs\<rparr>"
  by (induction fs arbitrary: M) (auto simp: message_of_AttachmentFile)

lemma fold_AttachmentInlineFile:
  "message_of (fold Mailer_AttachmentInlineFile fs M)
     = (message_of M)\<lparr>msg_attachmentInlineFiles := msg_attachmentInlineFiles (message_of M) @ fs\<rparr>"
  by (induction fs arbitrary: M) (auto simp: message_of_AttachmentInlineFile)

text \<open>
  C9. For every adapter, each setter returns the same adapter. To, Cc and Bcc add the
  address at the end of their list and leave the rest of the message as it was, so that
  a sequence of calls adds its addresses in call order, duplicates included. From,
  ReplyTo, Subject, BodyHTML and BodyText store the new value and leave the rest of the
  message as it was, and nothing of the value they replace remains.
\<close>

theorem setters_append_or_overwrite:
  "driver_of (Mailer_From name email M) = driver_of M
   \<and> driver_of (Mailer_To name email M) = driver_of M
   \<and> driver_of (Mailer_Cc name email M) = driver_of M
   \<and> driver_of (Mailer_Bcc name email M) = driver_of M
   \<and> driver_of (Mailer_ReplyTo name email M) = driver_of M
   \<and> driver_of (Mailer_Subject sub M) = driver_of M
   \<and> driver_of (Mailer_BodyHTML html M) = driver_of M
   \<and> driver_of (Mailer_BodyText text M) = driver_of M
   \<and> message_of (Mailer_To name email M)
        = (message_of M)\<lparr>msg_to := msg_to (message_of M) @ [(name, email)]\<rparr>
   \<and> message_of (Mailer_Cc name email M)
        = (message_of M)\<lparr>msg_cc := msg_cc (message_of M) @ [(name, email)]\<rparr>
   \<and> message_of (Mailer_Bcc name email M)
        = (message_of M)\<lparr>msg_bcc := msg_bcc (message_of M) @ [(name, email)]\<rparr>
   \<and> message_of (fold (\<lambda>(name, email). Mailer_To name email) xs M)
        = (message_of M)\<lparr>msg_to := msg_to (message_of M) @ xs\<rparr>
   \<and> message_of (fold (\<lambda>(name, email). Mailer_Cc name email) xs M)
        = (message_of M)\<lparr>msg_cc := msg_cc (message_of M) @ xs\<rparr>
   \<and> message_of (fold (\<lambda>(name, email). Mailer_Bcc name email) xs M)
        = (message_of M)\<lparr>msg_bcc := msg_bcc (message_of M) @ xs\<rparr>
   \<and> message_of (Mailer_From name email M) = (message_of M)\<lparr>msg_from := (name, email)\<rparr>
   \<and> message_of (Mailer_ReplyTo name email M) = (message_of M)\<lparr>msg_replyTo := (name, email)\<rparr>
   \<and> message_of (Mailer_Subject sub M) = (message_of M)\<lparr>msg_subject := sub\<rparr>
   \<and> message_of (Mailer_BodyHTML html M) = (message_of M)\<lparr>msg_bodyHTML := html\<rparr>
   \<and> message_of (Mailer_BodyText text M) = (message_of M)\<lparr>msg_bodyText := text\<rparr>
   \<and> Mailer_From name email (Mailer_From name0 email0 M) = Mailer_From name email M
   \<and> Mailer_ReplyTo name email (Mailer_ReplyTo name0 email0 M) = Mailer_ReplyTo name email M
   \<and> Mailer_Subject sub (Mailer_Subject sub0 M) = Mailer_Subject sub M
   \<and> Mailer_BodyHTML html (Mailer_BodyHTML html0 M) = Mailer_BodyHTML html M
   \<and> Mailer_BodyText text (Mailer_BodyText text0 M) = Mailer_BodyText text M"
  by (simp only: driver_of_setters message_of_From message_of_To message_of_Cc message_of_Bcc
        message_of_ReplyTo message_of_Subject message_of_BodyHTML message_of_BodyText
        fold_To fold_Cc fold_Bcc overwrite_setters simp_thms)

section \<open>Attachment setters\<close>

text \<open>
  C6, as the code has it. For every adapter, AttachmentFile and AttachmentInlineFile add
  the path at the end of their list, so that several calls accumulate. For SendGrid and
  Customer.io, AttachmentReader and AttachmentInlineReader replace the adapter's map of
  readers by a map that holds the new named reader only, so that only the reader of the
  last call is kept. For Mailjet and Postmark the two reader setters register nothing:
  they log the line \<^verbatim>\<open>gomailer: not implemented\<close> and return the adapter as it was, so
  that a Send after them is the Send before them.
\<close>

theorem attachment_setters:
  "message_of (Mailer_AttachmentFile file M)
     = (message_of M)\<lparr>msg_attachmentFiles := msg_attachmentFiles (message_of M) @ [file]\<rparr>
   \<and> message_of (Mailer_AttachmentInlineFile file M)
     = (message_of M)\<lparr>msg_attachmentInlineFiles := msg_attachmentInlineFiles (message_of M) @ [file]\<rparr>
   \<and> message_of (fold Mailer_AttachmentFile fs M)
     = (message_of M)\<lparr>msg_attachmentFiles := msg_attachmentFiles (message_of M) @ fs\<rparr>
   \<and> message_of (fold Mailer_AttachmentInlineFile fs M)
     = (message_of M)\<lparr>msg_attachmentInlineFiles := msg_attachmentInlineFiles (message_of M) @ fs\<rparr>
   \<and> driver_of (Mailer_AttachmentFile file M) = driver_of M
   \<and> driver_of (Mailer_AttachmentInlineFile file M) = driver_of M
   \<and> sendgrid_AttachmentReader file rd s
       = s\<lparr>sendgrid.attachmentReaders := [(file, \<lparr>size' = 0, r' = rd\<rparr>)]\<rparr>
   \<and> sendgrid_AttachmentInlineReader file rd s
       = s\<lparr>sendgrid.attachmentInlineReaders := [(file, \<lparr>size' = 0, r' = rd\<rparr>)]\<rparr>
   \<and> sendgrid_AttachmentReader file rd (sendgrid_AttachmentReader file0 rd0 s)
       = sendgrid_AttachmentReader file rd s
   \<and> sendgrid_AttachmentInlineReader file rd (sendgrid_AttachmentInlineReader file0 rd0 s)
       = sendgrid_AttachmentInlineReader file rd s
   \<and> customerio_AttachmentReader file rd c
       = c\<lparr>customerio.attachmentReaders := [(file, \<lparr>size' = 0, r' = rd\<rparr>)]\<rparr>
   \<and> customerio_AttachmentInlineReader file rd c
       = c\<lparr>customerio.attachmentInlineReaders := [(file, \<lparr>size' = 0, r' = rd\<rparr>)]\<rparr>
   \<and> customerio_AttachmentReader file rd (customerio_AttachmentReader file0 rd0 c)
       = customerio_AttachmentReader file rd c
   \<and> customerio_AttachmentInlineReader file rd (customerio_AttachmentInlineReader file0 rd0 c)
       = customerio_AttachmentInlineReader file rd c
   \<and> mailjet_AttachmentReader file rd mj = (mj, [''gomailer: not implemented''])
   \<and> mailjet_AttachmentInlineReader file rd mj = (mj, [''gomailer: not implemented''])
   \<and> postmark_AttachmentReader file rd pm = (pm, [''gomailer: not implemented''])
   \<and> postmark_AttachmentInlineReader file rd pm = (pm, [''gomailer: not implemented''])
   \<and> mailjet_Send w (fst (mailjet_AttachmentReader file rd mj)) = mailjet_Send w mj
   \<and> mailjet_Send w (fst (mailjet_AttachmentInlineReader file rd mj)) = mailjet_Send w mj
   \<and> postmark_Send w (fst (postmark_AttachmentReader file rd pm)) = postmark_Send w pm
   \<and> postmark_Send w (fst (postmark_AttachmentInlineReader file rd pm)) = postmark_Send w pm"
  by (simp add: message_of_AttachmentFile message_of_AttachmentInlineFile fold_AttachmentFile
        fold_AttachmentInlineFile driver_of_setters
        sendgrid_AttachmentReader_def sendgrid_AttachmentInlineReader_def
        customerio_AttachmentReader_def customerio_AttachmentInlineReader_def
        mailjet_AttachmentReader_def mailjet_AttachmentInlineReader_def
        postmark_AttachmentReader_def postmark_AttachmentInlineReader_def)

text \<open>
  C6 as stated fails: on a Mailjet or a Postmark adapter AttachmentReader registers
  nothing, the adapter after the call is the adapter before it.
\<close>

theorem reader_setter_registers_nothing:
  "mailjet_AttachmentReader ''hello.txt'' (Inr hello_bytes) (new_mailjet example_configs)
     = (new_mailjet example_configs, [''gomailer: not implemented''])
   \<and> postmark_AttachmentInlineReader ''hello.txt'' (Inr hello_bytes) (new_postmark example_configs)
     = (new_postmark example_configs, [''gomailer: not implemented''])"
  by (simp add: mailjet_AttachmentReader_def postmark_AttachmentInlineReader_def)

section \<open>The size check\<close>

text \<open>
  C1 fails on the Mailjet adapter. One attachment of 8,000,000 bytes is under Mailjet's
  ceiling of 15,000,000 bytes, but Send stats the file twice, compares 16,000,000 with the
  ceiling and returns the size error.
\<close>

theorem mailjet_Send_counts_attachment_files_twice:
  "get_attachmentFiles (Mailer_AttachmentFile ''report.pdf'' example_mailjet) = [''report.pdf'']
   \<and> os_Stat example_world ''report.pdf'' = Inr 8000000
   \<and> \<not> mailjetMaxFileSize <s 8000000
   \<and> Send example_world (Mailer_AttachmentFile ''report.pdf'' example_mailjet)
       = (Returned (Some (errors_New ''gomailer: max attachment size for mailjet is 15MB'')),
          [os_Stat_call ''report.pdf'', os_Stat_call ''report.pdf''])"
proof -
  have a: "get_attachmentFiles (Mailer_AttachmentFile ''report.pdf'' example_mailjet) = [''report.pdf'']"
    by code_simp
  have b: "os_Stat example_world ''report.pdf'' = Inr 8000000"
    by (simp add: example_world_def)
  have c: "\<not> mailjetMaxFileSize <s 8000000"
    by (simp add: mailjetMaxFileSize_def)
  have d: "Send example_world (Mailer_AttachmentFile ''report.pdf'' example_mailjet)
       = (Returned (Some (errors_New ''gomailer: max attachment size for mailjet is 15MB'')),
          [os_Stat_call ''report.pdf'', os_Stat_call ''report.pdf''])"
    by code_simp
  from a b c d show ?thesis by simp
qed

text \<open>
  For the other four adapters the check is the one the claim describes, as long as the
  sum stays within \<^verbatim>\<open>int64\<close>: the total is the sum of the sizes of the attachment files (the
  inline files are not counted).
\<close>

lemma totalFileSize_sum:
  assumes "\<forall>f \<in> set fs. \<exists>n. os_Stat w f = Inr n"
  shows "totalFileSize w fs t
           = (Inr (t + sum_list (map (\<lambda>f. case os_Stat w f of Inr n \<Rightarrow> n | Inl e \<Rightarrow> 0) fs)),
              map os_Stat_call fs)"
  using assms by (induction fs arbitrary: t) (auto simp: add.assoc)

lemma totalFileSize_error:
  "totalFileSize w fs t = (Inl e, tr) \<Longrightarrow> \<exists>f \<in> set fs. os_Stat w f = Inl e"
  by (induction fs arbitrary: t tr) (auto split: sum.splits prod.splits)

lemma size_check_exact:
  assumes "totalFileSize w fs 0 = (Inr totalSize, tr)"
  shows "mailgun.attachmentFiles g = fs \<Longrightarrow> mailgun_verifyParams g = None \<Longrightarrow>
           mailgun_Send w g =
             (if mailgunMaxFileSize <s totalSize
              then (Returned (Some (errors_New ''gomailer: max attachment size for mailgun is 25MB'')), tr)
              else (fst (mailgun_request w g), tr @ snd (mailgun_request w g)))"
    and "sendgrid.attachmentFiles s = fs \<Longrightarrow> sendgrid_verifyParams s = None \<Longrightarrow>
           sendgrid_Send w s =
             (if sendgridMaxFileSize <s totalSize
              then (Returned (Some (errors_New ''gomailer: max attachment size for sendgrid is 30MB'')), tr)
              else (fst (sendgrid_request w s), tr @ snd (sendgrid_request w s)))"
    and "postmark.attachmentFiles p = fs \<Longrightarrow> postmark_verifyParams p = None \<Longrightarrow>
           postmark_Send w p =
             (if postmarkMaxFileSize <s totalSize
              then (Returned (Some (errors_New ''gomailer: max attachment size for postmark is 5MB'')), tr)
              else (fst (postmark_request w p), tr @ snd (postmark_request w p)))"
    and "customerio.attachmentFiles c = fs \<Longrightarrow> customerio_verifyParams c = None \<Longrightarrow>
           customerio_Send w c =
             (if customerioMaxFileSize <s totalSize
              then (Returned (Some (errors_New ''gomailer: max attachment size for customerio is 30MB'')), tr)
              else (fst (customerio_request w c), tr @ snd (customerio_request w c)))"
  using assms
  by (simp_all add: mailgun_Send_def sendgrid_Send_def postmark_Send_def customerio_Send_def)

lemma file_size_ceilings:
  "sint mailgunMaxFileSize = 25000000" "sint mailjetMaxFileSize = 15000000"
  "sint sendgridMaxFileSize = 30000000" "sint customerioMaxFileSize = 30000000"
  "sint postmarkMaxFileSize = 5000000"
  by (simp_all add: mailgunMaxFileSize_def mailjetMaxFileSize_def sendgridMaxFileSize_def
        customerioMaxFileSize_def postmarkMaxFileSize_def)
section \<open>Credentials\<close>

lemma andThen_no_network:
  assumes "andThen step k = (out, tr)"
    and "\<And>res tr1. step = (res, tr1) \<Longrightarrow> filter is_network tr1 = []"
    and "\<And>v out2 tr2. k v = (out2, tr2) \<Longrightarrow> filter is_network tr2 = []"
  shows "filter is_network tr = []"
  using andThen_cases [OF assms(1)] assms(2,3) by fastforce

lemma andThen_not_ok:
  assumes "andThen step k = (out, tr)"
    and "\<And>v out2 tr2. k v = (out2, tr2) \<Longrightarrow> out2 \<noteq> Returned None"
  shows "out \<noteq> Returned None"
  using andThen_cases [OF assms(1)] assms(2) by fastforce

lemma processMailgunRequest_without_domain:
  assumes "Configs.Domain (mailgun.configs g) = ''''"
  shows "mailgun_allFormFiles w (range_files w files) = (Inr parts, tr) \<Longrightarrow>
           processMailgunRequest w g params files
             = (Panic ''gomailer: you must provide domain name in Config'', tr)"
    and "processMailgunRequest w g params files = (out, tr') \<Longrightarrow>
           out \<noteq> Returned None \<and> filter is_network tr' = []"
proof -
  have u: "mailgun_messageURL g = Inl ''gomailer: you must provide domain name in Config''"
    using assms by (simp add: mailgun_messageURL_def)
  show "mailgun_allFormFiles w (range_files w files) = (Inr parts, tr) \<Longrightarrow>
           processMailgunRequest w g params files
             = (Panic ''gomailer: you must provide domain name in Config'', tr)"
    by (simp add: processMailgunRequest_def u)
  assume p: "processMailgunRequest w g params files = (out, tr')"
  have 1: "out \<noteq> Returned None"
    using p unfolding processMailgunRequest_def u
    by (rule andThen_not_ok) simp
  have 2: "filter is_network tr' = []"
    using p unfolding processMailgunRequest_def u
    by (rule andThen_no_network) (auto dest: mailgun_allFormFiles_no_network)
  from 1 2 show "out \<noteq> Returned None \<and> filter is_network tr' = []" by simp
qed

lemma mailgun_Send_without_domain:
  assumes "Configs.Domain (mailgun.configs g) = ''''" "mailgun_Send w g = (out, tr)"
  shows "out \<noteq> Returned None \<and> filter is_network tr = []"
proof (cases "mailgun_verifyParams g")
  case (Some msg)
  with assms(2) show ?thesis by (auto simp: mailgun_Send_def)
next
  case None
  let ?k = "\<lambda>totalSize. if mailgunMaxFileSize <s totalSize
            then (Returned (Some (errors_New ''gomailer: max attachment size for mailgun is 25MB'')), [])
            else mailgun_request w g"
  from assms(2) None have s: "andThen (totalFileSize w (mailgun.attachmentFiles g) 0) ?k = (out, tr)"
    by (simp add: mailgun_Send_def)
  have k: "out2 \<noteq> Returned None \<and> filter is_network tr2 = []" if "?k v = (out2, tr2)" for v out2 tr2
    using that processMailgunRequest_without_domain(2) [OF assms(1)]
    by (auto simp: mailgun_request_def split: if_splits)
  have "out \<noteq> Returned None"
  proof (rule andThen_not_ok [OF s])
    fix v out2 tr2
    assume "?k v = (out2, tr2)"
    then show "out2 \<noteq> Returned None" using k by blast
  qed
  moreover have "filter is_network tr = []"
  proof (rule andThen_no_network [OF s])
    fix res tr1
    assume "totalFileSize w (mailgun.attachmentFiles g) 0 = (res, tr1)"
    then show "filter is_network tr1 = []" by (rule totalFileSize_no_network)
  next
    fix v out2 tr2
    assume "?k v = (out2, tr2)"
    then show "filter is_network tr2 = []" using k by blast
  qed
  ultimately show ?thesis by simp
qed

lemma totalFileSize_trace:
  "totalFileSize w fs t = (Inr totalSize, tr) \<Longrightarrow> tr = map os_Stat_call fs"
  by (induction fs arbitrary: t tr) (auto split: sum.splits prod.splits)

lemma mailgun_formFiles_trace:
  "mailgun_formFiles w n i fs = (Inr parts, tr) \<Longrightarrow> tr = map os_Open_call fs"
  by (induction fs arbitrary: i parts tr) (auto split: sum.splits prod.splits)

lemma mailgun_allFormFiles_trace:
  "mailgun_allFormFiles w files = (Inr parts, tr) \<Longrightarrow>
     tr = map os_Open_call (concat (map snd files))"
proof (induction files arbitrary: parts tr)
  case Nil
  then show ?case by simp
next
  case (Cons a files)
  obtain n fs where a: "a = (n, fs)" by (cases a)
  from Cons.prems obtain p1 t1 p2 t2
    where 1: "mailgun_formFiles w n 0 fs = (Inr p1, t1)"
      and 2: "mailgun_allFormFiles w files = (Inr p2, t2)"
      and t: "tr = t1 @ t2"
    by (auto simp: a split: sum.splits prod.splits)
  from mailgun_formFiles_trace [OF 1] Cons.IH [OF 2] t show ?case
    by (simp add: a)
qed

lemma mailgun_verifyParams_configs:
  "mailgun_verifyParams (g\<lparr>mailgun.configs := cfg\<rparr>) = mailgun_verifyParams g"
  by (simp add: mailgun_verifyParams_def)

lemma mailgun_Send_panics_after_attachment_io:
  assumes "Configs.Domain (mailgun.configs g) = ''''"
    and "mailgun_verifyParams g = None"
    and "totalFileSize w (mailgun.attachmentFiles g) 0 = (Inr totalSize, stats)"
    and "\<not> mailgunMaxFileSize <s totalSize"
    and "mailgun_allFormFiles w (range_files w
           [(''attachment'', mailgun.attachmentFiles g), (''inline'', mailgun.attachmentInlineFiles g)])
         = (Inr parts, opens)"
  shows "mailgun_Send w g = (Panic ''gomailer: you must provide domain name in Config'', stats @ opens)"
  using assms processMailgunRequest_without_domain(1) [OF assms(1,5), of "mailgun_params g"]
  by (simp add: mailgun_Send_def mailgun_request_def)

text \<open>
  C3, as the code has it. Postmark without an account token and without a server token,
  and Mailjet without its public or its private key, fail in the validation at the start
  of Send: Send panics before any call to the file system or the network. Mailgun's
  validation does not look at the configuration, so a missing domain does not make it
  fail. Without a domain, a Send on a Mailgun adapter makes no network call and never
  succeeds; and when the message passes validation, every attachment file can be
  stat'ed, their total is within the ceiling and every attachment and inline file can be
  opened and copied, Send panics about the domain after exactly these calls: the stat of
  each attachment file, then the opening of each attachment and inline file.
\<close>

theorem credentials_checked:
  "(Configs.AccountToken (postmark.configs p) = '''' \<and> Configs.ServerToken (postmark.configs p) = ''''
      \<longrightarrow> postmark_Send w p
            = (Panic ''gomailer: for postmarkapp you must provide AccountToken or ServerToken in config'', []))
   \<and> (Configs.PrivateKey (mailjet.configs m) = '''' \<or> Configs.PublicKey (mailjet.configs m) = ''''
      \<longrightarrow> mailjet_Send w m
            = (Panic ''gomailer: for mailjetapp you must provide PrivateKey and PublicKey in config'', []))
   \<and> mailgun_verifyParams (g\<lparr>mailgun.configs := cfg\<rparr>) = mailgun_verifyParams g
   \<and> (Configs.Domain (mailgun.configs g) = ''''
      \<longrightarrow> fst (mailgun_Send w g) \<noteq> Returned None
          \<and> filter is_network (snd (mailgun_Send w g)) = []
          \<and> (mailgun_verifyParams g = None
              \<and> totalFileSize w (mailgun.attachmentFiles g) 0 = (Inr totalSize, stats)
              \<and> \<not> mailgunMaxFileSize <s totalSize
              \<and> mailgun_allFormFiles w (range_files w
                   [(''attachment'', mailgun.attachmentFiles g),
                    (''inline'', mailgun.attachmentInlineFiles g)]) = (Inr parts, opens)
             \<longrightarrow> mailgun_Send w g
                   = (Panic ''gomailer: you must provide domain name in Config'', stats @ opens)
                 \<and> stats = map os_Stat_call (mailgun.attachmentFiles g)
                 \<and> opens = map os_Open_call (concat (map snd (range_files w
                            [(''attachment'', mailgun.attachmentFiles g),
                             (''inline'', mailgun.attachmentInlineFiles g)])))))"
proof (intro conjI impI)
  assume "Configs.AccountToken (postmark.configs p) = '''' \<and> Configs.ServerToken (postmark.configs p) = ''''"
  then show "postmark_Send w p
            = (Panic ''gomailer: for postmarkapp you must provide AccountToken or ServerToken in config'', [])"
    by (simp add: postmark_Send_def postmark_verifyParams_def)
next
  assume "Configs.PrivateKey (mailjet.configs m) = '''' \<or> Configs.PublicKey (mailjet.configs m) = ''''"
  then show "mailjet_Send w m
            = (Panic ''gomailer: for mailjetapp you must provide PrivateKey and PublicKey in config'', [])"
    by (auto simp: mailjet_Send_def mailjet_verifyParams_def)
next
  show "mailgun_verifyParams (g\<lparr>mailgun.configs := cfg\<rparr>) = mailgun_verifyParams g"
    by (rule mailgun_verifyParams_configs)
next
  assume d: "Configs.Domain (mailgun.configs g) = ''''"
  obtain out tr where s: "mailgun_Send w g = (out, tr)" by (cases "mailgun_Send w g")
  from mailgun_Send_without_domain [OF d s] s
  show "fst (mailgun_Send w g) \<noteq> Returned None" "filter is_network (snd (mailgun_Send w g)) = []"
    by simp_all
next
  assume d: "Configs.Domain (mailgun.configs g) = ''''"
    and h: "mailgun_verifyParams g = None
              \<and> totalFileSize w (mailgun.attachmentFiles g) 0 = (Inr totalSize, stats)
              \<and> \<not> mailgunMaxFileSize <s totalSize
              \<and> mailgun_allFormFiles w (range_files w
                   [(''attachment'', mailgun.attachmentFiles g),
                    (''inline'', mailgun.attachmentInlineFiles g)]) = (Inr parts, opens)"
  from h have v: "mailgun_verifyParams g = None"
    and t: "totalFileSize w (mailgun.attachmentFiles g) 0 = (Inr totalSize, stats)"
    and c: "\<not> mailgunMaxFileSize <s totalSize"
    and f: "mailgun_allFormFiles w (range_files w
                   [(''attachment'', mailgun.attachmentFiles g),
                    (''inline'', mailgun.attachmentInlineFiles g)]) = (Inr parts, opens)"
    by simp_all
  show "mailgun_Send w g = (Panic ''gomailer: you must provide domain name in Config'', stats @ opens)"
    using d v t c f by (rule mailgun_Send_panics_after_attachment_io)
  show "stats = map os_Stat_call (mailgun.attachmentFiles g)"
    using t by (rule totalFileSize_trace)
  show "opens = map os_Open_call (concat (map snd (range_files w
                            [(''attachment'', mailgun.attachmentFiles g),
                             (''inline'', mailgun.attachmentInlineFiles g)])))"
    using f by (rule mailgun_allFormFiles_trace)
qed

text \<open>
  C3 as stated fails for Mailgun: validation passes without a domain, and Send stats and
  opens the attachment before it panics.
\<close>

theorem mailgun_domain_checked_after_attachment_io:
  "verifyParams mailgun_without_domain = None
   \<and> Send example_world mailgun_without_domain
       = (Panic ''gomailer: you must provide domain name in Config'',
          [os_Stat_call ''docs/hello.txt'', os_Open_call ''docs/hello.txt''])"
proof -
  have a: "verifyParams mailgun_without_domain = None" by code_simp
  have b: "Send example_world mailgun_without_domain
       = (Panic ''gomailer: you must provide domain name in Config'',
          [os_Stat_call ''docs/hello.txt'', os_Open_call ''docs/hello.txt''])"
    by code_simp
  from a b show ?thesis by simp
qed

theorem credentials_checked_witness:
  "Configs.AccountToken (postmark.configs postmark_without_token) = ''''
   \<and> Configs.ServerToken (postmark.configs postmark_without_token) = ''''
   \<and> postmark_Send example_world postmark_without_token
       = (Panic ''gomailer: for postmarkapp you must provide AccountToken or ServerToken in config'', [])
   \<and> Configs.PrivateKey (mailjet.configs mailjet_without_key) = ''''
   \<and> mailjet_Send example_world mailjet_without_key
       = (Panic ''gomailer: for mailjetapp you must provide PrivateKey and PublicKey in config'', [])
   \<and> Configs.Domain (mailgun.configs mailgun_state_without_domain) = ''''
   \<and> mailgun_verifyParams mailgun_state_without_domain = None
   \<and> totalFileSize example_world (mailgun.attachmentFiles mailgun_state_without_domain) 0
       = (Inr 2, [os_Stat_call ''docs/hello.txt''])
   \<and> \<not> mailgunMaxFileSize <s 2
   \<and> mailgun_allFormFiles example_world (range_files example_world
         [(''attachment'', mailgun.attachmentFiles mailgun_state_without_domain),
          (''inline'', mailgun.attachmentInlineFiles mailgun_state_without_domain)])
       = (Inr [(''attachment[0]'', ''hello.txt'', hello_bytes)], [os_Open_call ''docs/hello.txt''])
   \<and> mailgun_Send example_world mailgun_state_without_domain
       = (Panic ''gomailer: you must provide domain name in Config'',
          [os_Stat_call ''docs/hello.txt'', os_Open_call ''docs/hello.txt''])
   \<and> filter is_network (snd (mailgun_Send example_world mailgun_state_without_domain)) = []"
proof -
  have a: "Configs.AccountToken (postmark.configs postmark_without_token) = ''''
           \<and> Configs.ServerToken (postmark.configs postmark_without_token) = ''''"
    by (simp add: postmark_without_token_def new_postmark_def example_configs_def)
  have b: "Configs.PrivateKey (mailjet.configs mailjet_without_key) = ''''"
    by (simp add: mailjet_without_key_def new_mailjet_def example_configs_def)
  have c: "Configs.Domain (mailgun.configs mailgun_state_without_domain) = ''''"
    by (simp add: mailgun_state_without_domain_def new_mailgun_def example_configs_def setter_defs)
  have v: "mailgun_verifyParams mailgun_state_without_domain = None" by code_simp
  have t: "totalFileSize example_world (mailgun.attachmentFiles mailgun_state_without_domain) 0
       = (Inr 2, [os_Stat_call ''docs/hello.txt''])"
    by code_simp
  have u: "\<not> mailgunMaxFileSize <s 2"
    by (simp add: mailgunMaxFileSize_def)
  have d: "mailgun_allFormFiles example_world (range_files example_world
         [(''attachment'', mailgun.attachmentFiles mailgun_state_without_domain),
          (''inline'', mailgun.attachmentInlineFiles mailgun_state_without_domain)])
       = (Inr [(''attachment[0]'', ''hello.txt'', hello_bytes)], [os_Open_call ''docs/hello.txt''])"
    by code_simp
  note th = credentials_checked
             [where p = postmark_without_token and m = mailjet_without_key
                and g = mailgun_state_without_domain and w = example_world
                and cfg = example_configs and totalSize = 2
                and stats = "[os_Stat_call ''docs/hello.txt'']"
                and parts = "[(''attachment[0]'', ''hello.txt'', hello_bytes)]"
                and opens = "[os_Open_call ''docs/hello.txt'']"]
  from th a have 1: "postmark_Send example_world postmark_without_token
       = (Panic ''gomailer: for postmarkapp you must provide AccountToken or ServerToken in config'', [])"
    by blast
  from th b have 2: "mailjet_Send example_world mailjet_without_key
       = (Panic ''gomailer: for mailjetapp you must provide PrivateKey and PublicKey in config'', [])"
    by blast
  from th c v t u d have 3: "mailgun_Send example_world mailgun_state_without_domain
       = (Panic ''gomailer: you must provide domain name in Config'',
          [os_Stat_call ''docs/hello.txt''] @ [os_Open_call ''docs/hello.txt''])"
    by blast
  from th c have 4: "filter is_network (snd (mailgun_Send example_world mailgun_state_without_domain)) = []"
    by blast
  from a b c v t u d 1 2 3 4 show ?thesis by simp
qed

section \<open>The response status\<close>

lemma totalFileSize_snd_no_network: "filter is_network (snd (totalFileSize w fs t)) = []"
  by (cases "totalFileSize w fs t") (auto dest: totalFileSize_no_network)

lemma readFiles_snd_no_network: "filter is_network (snd (readFiles w fin fs)) = []"
  by (cases "readFiles w fin fs") (auto dest: readFiles_no_network)

lemma readReaders_snd_no_network: "filter is_network (snd (readReaders w fin rs)) = []"
  by (cases "readReaders w fin rs") (auto dest: readReaders_no_network)


text \<open>
  A network call in the trace of a sequence whose first step makes none was made by the
  rest, which then ran and gave the outcome.
\<close>

lemma andThen_network_call:
  assumes "andThen step k = (out, tr)" "e \<in> set tr" "is_network e"
    and "filter is_network (snd step) = []"
    and "\<And>v tr2. k v = (out, tr2) \<Longrightarrow> e \<in> set tr2 \<Longrightarrow> P"
  shows P
proof -
  from andThen_cases [OF assms(1)] show P
  proof (elim disjE exE conjE)
    fix err
    assume "step = (Inl err, tr)"
    with assms(2,3,4) show P by (auto simp: filter_empty_conv)
  next
    fix v tr1 tr2
    assume s: "step = (Inr v, tr1)" and k: "k v = (out, tr2)" and t: "tr = tr1 @ tr2"
    from s assms(4) have "filter is_network tr1 = []" by simp
    with assms(2,3) t have "e \<in> set tr2" by (auto simp: filter_empty_conv)
    with k show P by (rule assms(5))
  qed
qed







lemma size_gate_network_call:
  assumes "andThen (totalFileSize w fs 0)
             (\<lambda>totalSize. if lim <s totalSize then (Returned (Some err), []) else rest) = (out, tr)"
    and "e \<in> set tr" and "is_network e"
  shows "\<exists>tr2. rest = (out, tr2) \<and> e \<in> set tr2"
proof (rule andThen_network_call [OF assms(1,2,3) totalFileSize_snd_no_network])
  fix v tr2
  assume "(if lim <s v then (Returned (Some err), []) else rest) = (out, tr2)" and "e \<in> set tr2"
  then show "\<exists>tr2. rest = (out, tr2) \<and> e \<in> set tr2"
    by (auto split: if_splits)
qed






section \<open>Customer.io: Cc and Bcc\<close>

lemma customerio_req_BCC:
  "BCC (customerio_req w c atts) =
     (if length (customerio.bccList c) > 0 then customerio_lists (customerio.bccList c)
      else if length (customerio.ccList c) > 0 then customerio_lists (customerio.ccList c)
      else '''')"
  by (simp add: customerio_req_def customerio_req0_def Let_def)

lemma customerio_req_without_cc:
  "length (customerio.bccList c) > 0 \<Longrightarrow>
     customerio_req w (c\<lparr>customerio.ccList := []\<rparr>) atts = customerio_req w c atts"
  by (simp add: customerio_req_def customerio_req0_def Let_def)

lemma customerio_request_without_cc:
  "length (customerio.bccList c) > 0 \<Longrightarrow>
     customerio_request w (c\<lparr>customerio.ccList := []\<rparr>) = customerio_request w c"
  by (simp add: customerio_request_def customerio_req_without_cc)

lemma customerio_verifyParams_without_cc:
  "customerio_verifyParams c = None \<Longrightarrow>
     customerio_verifyParams (c\<lparr>customerio.ccList := []\<rparr>) = None"
  by (auto simp: customerio_verifyParams_def split: if_splits)

lemma customerio_request_event:
  assumes "customerio_request w c = (out, tr)" and "cio_SendEmail_call key req \<in> set tr"
  shows "\<exists>atts. req = customerio_req w c atts"
  using assms unfolding customerio_request_def
  apply (elim andThen_network_call [where e = "cio_SendEmail_call key req"])
             apply (simp_all add: readFiles_snd_no_network readReaders_snd_no_network)
  apply (auto simp: Let_def)
  done

lemma customerio_Send_event:
  assumes "customerio_Send w c = (out, tr)" and "cio_SendEmail_call key req \<in> set tr"
  shows "\<exists>atts. req = customerio_req w c atts"
proof (cases "customerio_verifyParams c")
  case (Some msg)
  with assms show ?thesis by (auto simp: customerio_Send_def)
next
  case None
  with assms(1) have "andThen (totalFileSize w (customerio.attachmentFiles c) 0) (\<lambda>totalSize.
            if customerioMaxFileSize <s totalSize
            then (Returned (Some (errors_New ''gomailer: max attachment size for customerio is 30MB'')), [])
            else customerio_request w c) = (out, tr)"
    by (simp add: customerio_Send_def)
  from size_gate_network_call [OF this assms(2)]
  obtain tr2 where "customerio_request w c = (out, tr2)" "cio_SendEmail_call key req \<in> set tr2"
    by auto
  then show ?thesis by (rule customerio_request_event)
qed

text \<open>
  C8. In the request that a Send on the Customer.io adapter hands to the Customer.io
  client, the BCC field is the formatted Bcc list when there is a Bcc recipient, and
  otherwise the formatted Cc list when there is a Cc recipient (no field of the request
  is written from the Cc list but BCC). So with at least one Bcc recipient the Cc
  recipients are in no part of the request: on a message that passes validation, Send
  makes the same calls with the same request, and has the same outcome, as on the message
  without its Cc recipients.
\<close>

theorem customerio_cc_written_to_bcc_and_overwritten:
  "(cio_SendEmail_call key req \<in> set (snd (customerio_Send w c)) \<longrightarrow>
      BCC req =
        (if length (customerio.bccList c) > 0 then customerio_lists (customerio.bccList c)
         else if length (customerio.ccList c) > 0 then customerio_lists (customerio.ccList c)
         else ''''))
   \<and> (length (customerio.bccList c) > 0 \<longrightarrow>
        customerio_req w c atts = customerio_req w (c\<lparr>customerio.ccList := []\<rparr>) atts)
   \<and> (length (customerio.bccList c) > 0 \<and> customerio_verifyParams c = None \<longrightarrow>
        customerio_Send w c = customerio_Send w (c\<lparr>customerio.ccList := []\<rparr>))"
proof (intro conjI impI)
  assume e: "cio_SendEmail_call key req \<in> set (snd (customerio_Send w c))"
  obtain out tr where s: "customerio_Send w c = (out, tr)" by (cases "customerio_Send w c")
  with e have "cio_SendEmail_call key req \<in> set tr" by simp
  from customerio_Send_event [OF s this] obtain atts' where "req = customerio_req w c atts'" ..
  then show "BCC req =
        (if length (customerio.bccList c) > 0 then customerio_lists (customerio.bccList c)
         else if length (customerio.ccList c) > 0 then customerio_lists (customerio.ccList c)
         else '''')"
    by (simp only: customerio_req_BCC)
next
  assume "length (customerio.bccList c) > 0"
  then show "customerio_req w c atts = customerio_req w (c\<lparr>customerio.ccList := []\<rparr>) atts"
    by (simp add: customerio_req_without_cc)
next
  assume a: "length (customerio.bccList c) > 0 \<and> customerio_verifyParams c = None"
  then have v: "customerio_verifyParams (c\<lparr>customerio.ccList := []\<rparr>) = None"
    by (simp add: customerio_verifyParams_without_cc)
  have r: "customerio_request w (c\<lparr>customerio.ccList := []\<rparr>) = customerio_request w c"
    using a by (simp add: customerio_request_without_cc)
  have f: "customerio.attachmentFiles (c\<lparr>customerio.ccList := []\<rparr>) = customerio.attachmentFiles c"
    by simp
  show "customerio_Send w c = customerio_Send w (c\<lparr>customerio.ccList := []\<rparr>)"
    unfolding customerio_Send_def v r f using a by simp
qed

theorem customerio_cc_written_to_bcc_and_overwritten_witness:
  "customerio.ccList customerio_cc_bcc = [\<lparr>address.Name = ''Tom'', address.Email = ''tom@example.com'', address.Type = ''''\<rparr>]
   \<and> snd (customerio_Send example_world customerio_cc_bcc)
       = [cio_SendEmail_call ''key'' (customerio_req example_world customerio_cc_bcc [])]
   \<and> BCC (customerio_req example_world customerio_cc_bcc []) = ''Jerry <jerry@example.com>''
   \<and> customerio_Send example_world customerio_cc_bcc
       = customerio_Send example_world (customerio_cc_bcc\<lparr>customerio.ccList := []\<rparr>)"
proof -
  have cc: "customerio.ccList customerio_cc_bcc
              = [\<lparr>address.Name = ''Tom'', address.Email = ''tom@example.com'', address.Type = ''''\<rparr>]"
    by code_simp
  have bcc: "customerio.bccList customerio_cc_bcc
              = [\<lparr>address.Name = ''Jerry'', address.Email = ''jerry@example.com'', address.Type = ''''\<rparr>]"
    by code_simp
  have v: "customerio_verifyParams customerio_cc_bcc = None" by code_simp
  have tr: "snd (customerio_Send example_world customerio_cc_bcc)
       = [cio_SendEmail_call ''key'' (customerio_req example_world customerio_cc_bcc [])]"
    by code_simp
  note t = customerio_cc_written_to_bcc_and_overwritten
             [where w = example_world and c = customerio_cc_bcc and key = "''key''"
                and req = "customerio_req example_world customerio_cc_bcc []" and atts = "[]"]
  from t [THEN conjunct1] tr bcc have b: "BCC (customerio_req example_world customerio_cc_bcc []) = ''Jerry <jerry@example.com>''"
    by (simp add: customerio_lists_def format_def)
  from t [THEN conjunct2, THEN conjunct2] bcc v have s: "customerio_Send example_world customerio_cc_bcc
       = customerio_Send example_world (customerio_cc_bcc\<lparr>customerio.ccList := []\<rparr>)"
    by simp
  from cc tr b s show ?thesis by simp
qed












end
